theory Spec2Isabelle
  imports Main "HOL-Library.Word" "HOL-Library.Sublist"
begin

unbundle bit_operations_syntax

section \<open>Data model\<close>

type_synonym u8 = "8 word"
type_synonym u16 = "16 word"
type_synonym u32 = "32 word"

text \<open>
  \<open>AREntry\<close> and \<open>ARCode\<close> as ActionReplay.cpp uses them. The field \<open>value\<close> of the
  source is called \<open>val\<close> here.
\<close>

record AREntry =
  cmd_addr :: u32
  val :: u32

record ARCode =
  name :: string
  active :: bool
  user_defined :: bool
  ops :: "AREntry list"

subsection \<open>The enum constants\<close>

abbreviation (input) ZCODE_END :: "'a::zero" where "ZCODE_END \<equiv> 0"
abbreviation (input) ZCODE_NORM :: "'a::numeral" where "ZCODE_NORM \<equiv> 2"
abbreviation (input) ZCODE_ROW :: "'a::numeral" where "ZCODE_ROW \<equiv> 3"
abbreviation (input) ZCODE_04 :: "'a::numeral" where "ZCODE_04 \<equiv> 4"

abbreviation (input) CONDTIONAL_EQUAL :: "'a::one" where "CONDTIONAL_EQUAL \<equiv> 1"
abbreviation (input) CONDTIONAL_NOT_EQUAL :: "'a::numeral" where "CONDTIONAL_NOT_EQUAL \<equiv> 2"
abbreviation (input) CONDTIONAL_LESS_THAN_SIGNED :: "'a::numeral" where
  "CONDTIONAL_LESS_THAN_SIGNED \<equiv> 3"
abbreviation (input) CONDTIONAL_GREATER_THAN_SIGNED :: "'a::numeral" where
  "CONDTIONAL_GREATER_THAN_SIGNED \<equiv> 4"
abbreviation (input) CONDTIONAL_LESS_THAN_UNSIGNED :: "'a::numeral" where
  "CONDTIONAL_LESS_THAN_UNSIGNED \<equiv> 5"
abbreviation (input) CONDTIONAL_GREATER_THAN_UNSIGNED :: "'a::numeral" where
  "CONDTIONAL_GREATER_THAN_UNSIGNED \<equiv> 6"
abbreviation (input) CONDTIONAL_AND :: "'a::numeral" where "CONDTIONAL_AND \<equiv> 7"

abbreviation (input) CONDTIONAL_ONE_LINE :: "'a::zero" where "CONDTIONAL_ONE_LINE \<equiv> 0"
abbreviation (input) CONDTIONAL_TWO_LINES :: "'a::one" where "CONDTIONAL_TWO_LINES \<equiv> 1"
abbreviation (input) CONDTIONAL_ALL_LINES_UNTIL :: "'a::numeral" where
  "CONDTIONAL_ALL_LINES_UNTIL \<equiv> 2"
abbreviation (input) CONDTIONAL_ALL_LINES :: "'a::numeral" where "CONDTIONAL_ALL_LINES \<equiv> 3"

abbreviation (input) DATATYPE_8BIT :: "'a::zero" where "DATATYPE_8BIT \<equiv> 0"
abbreviation (input) DATATYPE_16BIT :: "'a::one" where "DATATYPE_16BIT \<equiv> 1"
abbreviation (input) DATATYPE_32BIT :: "'a::numeral" where "DATATYPE_32BIT \<equiv> 2"
abbreviation (input) DATATYPE_32BIT_FLOAT :: "'a::numeral" where "DATATYPE_32BIT_FLOAT \<equiv> 3"

abbreviation (input) SUB_RAM_WRITE :: "'a::zero" where "SUB_RAM_WRITE \<equiv> 0"
abbreviation (input) SUB_WRITE_POINTER :: "'a::one" where "SUB_WRITE_POINTER \<equiv> 1"
abbreviation (input) SUB_ADD_CODE :: "'a::numeral" where "SUB_ADD_CODE \<equiv> 2"
abbreviation (input) SUB_MASTER_CODE :: "'a::numeral" where "SUB_MASTER_CODE \<equiv> 3"

subsection \<open>ARAddr: the bit fields of a command word\<close>

text \<open>
  The union of \<open>address\<close> with the bit fields \<open>gcaddr : 25\<close>, \<open>size : 2\<close>, \<open>type : 3\<close>,
  \<open>subtype : 2\<close>, allocated from the least significant bit. The conversion
  \<open>operator u32\<close> yields the whole word \<open>address\<close>, so an \<open>ARAddr\<close> is its \<open>u32\<close>.
\<close>

definition gcaddr :: "u32 \<Rightarrow> u32" where
  "gcaddr a = a AND 0x01FFFFFF"

definition ar_size :: "u32 \<Rightarrow> u32" where
  "ar_size a = drop_bit 25 a AND 3"

definition ar_type :: "u32 \<Rightarrow> u32" where
  "ar_type a = drop_bit 27 a AND 7"

definition ar_subtype :: "u32 \<Rightarrow> u32" where
  "ar_subtype a = drop_bit 30 a AND 3"

definition GCAddress :: "u32 \<Rightarrow> u32" where
  "GCAddress a = gcaddr a OR 0x80000000"

subsection \<open>Guest memory\<close>

text \<open>
  Modelled from the spec: the host memory bus (\<open>PowerPC::HostRead_U8/U16/U32\<close>,
  \<open>PowerPC::HostWrite_U8/U16/U32\<close> of Core/PowerPC) is not among the sources. Following
  section 4.2 of the specification, guest memory is a flat space of bytes under 32-bit
  addresses, wider accesses are big-endian, and no access faults.
\<close>

type_synonym memory = "u32 \<Rightarrow> u8"

definition HostRead_U8 :: "memory \<Rightarrow> u32 \<Rightarrow> u8" where
  "HostRead_U8 mem a = mem a"

definition HostRead_U16 :: "memory \<Rightarrow> u32 \<Rightarrow> u16" where
  "HostRead_U16 mem a = push_bit 8 (ucast (mem a)) OR ucast (mem (a + 1))"

definition HostRead_U32 :: "memory \<Rightarrow> u32 \<Rightarrow> u32" where
  "HostRead_U32 mem a =
     push_bit 24 (ucast (mem a)) OR push_bit 16 (ucast (mem (a + 1))) OR
     push_bit 8 (ucast (mem (a + 2))) OR ucast (mem (a + 3))"

definition HostWrite_U8 :: "u8 \<Rightarrow> u32 \<Rightarrow> memory \<Rightarrow> memory" where
  "HostWrite_U8 v a mem = mem(a := v)"

definition HostWrite_U16 :: "u16 \<Rightarrow> u32 \<Rightarrow> memory \<Rightarrow> memory" where
  "HostWrite_U16 v a mem = mem(a := ucast (drop_bit 8 v), a + 1 := ucast v)"

definition HostWrite_U32 :: "u32 \<Rightarrow> u32 \<Rightarrow> memory \<Rightarrow> memory" where
  "HostWrite_U32 v a mem =
     mem(a := ucast (drop_bit 24 v), a + 1 := ucast (drop_bit 16 v),
         a + 2 := ucast (drop_bit 8 v), a + 3 := ucast v)"

text \<open>
  The 32-bit floating add of \<open>Subtype_AddCode\<close> (reinterpret the word read as a float, add
  the operand converted to float, reinterpret the sum) is host floating-point arithmetic.
  It is a parameter of the model: a function from the word read and the operand to the
  word written.
\<close>

type_synonym float_add = "u32 \<Rightarrow> u32 \<Rightarrow> u32"

section \<open>Code functions\<close>

text \<open>
  Every code function returns its \<open>bool\<close> together with the guest memory it leaves.
  \<open>LogInfo\<close> and \<open>PanicAlertT\<close> write to the log and to the screen only; they are left out
  here and are part of the logged functions further down. Each counted loop runs its body for \<open>i = 0, 1, ...\<close> in
  order, as a \<open>fold\<close> over the indices; no counter can wrap, the bounds being at most
  \<open>2 ^ 24\<close>.
\<close>

definition Subtype_RamWriteAndFill :: "u32 \<Rightarrow> u32 \<Rightarrow> memory \<Rightarrow> bool \<times> memory" where
  "Subtype_RamWriteAndFill addr data mem =
     (let new_addr = GCAddress addr in
      if ar_size addr = DATATYPE_8BIT then
        (let repeat = drop_bit 8 data in
         (True, fold (\<lambda>i. HostWrite_U8 (ucast (data AND 0xFF)) (new_addr + of_nat i))
                  [0..<Suc (unat repeat)] mem))
      else if ar_size addr = DATATYPE_16BIT then
        (let repeat = drop_bit 16 data in
         (True, fold (\<lambda>i. HostWrite_U16 (ucast (data AND 0xFFFF)) (new_addr + of_nat i * 2))
                  [0..<Suc (unat repeat)] mem))
      else if ar_size addr = DATATYPE_32BIT_FLOAT \<or> ar_size addr = DATATYPE_32BIT then
        (True, HostWrite_U32 data new_addr mem)
      else (False, mem))"

definition Subtype_WriteToPointer :: "u32 \<Rightarrow> u32 \<Rightarrow> memory \<Rightarrow> bool \<times> memory" where
  "Subtype_WriteToPointer addr data mem =
     (let new_addr = GCAddress addr;
          ptr = HostRead_U32 mem new_addr in
      if ar_size addr = DATATYPE_8BIT then
        (let thebyte = (ucast (data AND 0xFF) :: u8);
             offset = drop_bit 8 data in
         (True, HostWrite_U8 thebyte (ptr + offset) mem))
      else if ar_size addr = DATATYPE_16BIT then
        (let theshort = (ucast (data AND 0xFFFF) :: u16);
             offset = push_bit 1 (drop_bit 16 data) in
         (True, HostWrite_U16 theshort (ptr + offset) mem))
      else if ar_size addr = DATATYPE_32BIT_FLOAT \<or> ar_size addr = DATATYPE_32BIT then
        (True, HostWrite_U32 data ptr mem)
      else (False, mem))"

definition Subtype_AddCode :: "float_add \<Rightarrow> u32 \<Rightarrow> u32 \<Rightarrow> memory \<Rightarrow> bool \<times> memory" where
  "Subtype_AddCode fadd addr data mem =
     (let new_addr = GCAddress addr in
      if ar_size addr = DATATYPE_8BIT then
        (True, HostWrite_U8 (ucast ((ucast (HostRead_U8 mem new_addr) :: u32) + data))
                 new_addr mem)
      else if ar_size addr = DATATYPE_16BIT then
        (True, HostWrite_U16 (ucast ((ucast (HostRead_U16 mem new_addr) :: u32) + data))
                 new_addr mem)
      else if ar_size addr = DATATYPE_32BIT then
        (True, HostWrite_U32 (HostRead_U32 mem new_addr + data) new_addr mem)
      else if ar_size addr = DATATYPE_32BIT_FLOAT then
        (let read = HostRead_U32 mem new_addr;
             newval = fadd read data in
         (True, HostWrite_U32 newval new_addr mem))
      else (False, mem))"

definition Subtype_MasterCodeAndWriteToCCXXXXXX :: "u32 \<Rightarrow> u32 \<Rightarrow> memory \<Rightarrow> bool \<times> memory"
  where
  "Subtype_MasterCodeAndWriteToCCXXXXXX addr data mem = (False, mem)"

text \<open>
  The three cases of \<open>ZeroCode_FillAndSlide\<close> each run one loop; these differ in the
  write and in the factor of the address increment only: write at the cursor, advance the
  cursor, advance the value, \<open>write_num\<close> times.
\<close>

primrec slide_loop ::
  "(u32 \<Rightarrow> u32 \<Rightarrow> memory \<Rightarrow> memory) \<Rightarrow> u32 \<Rightarrow> u32 \<Rightarrow> nat \<Rightarrow> u32 \<Rightarrow> u32 \<Rightarrow> memory \<Rightarrow> memory"
  where
  "slide_loop wr astep vstep 0 v curr_addr mem = mem"
| "slide_loop wr astep vstep (Suc n) v curr_addr mem =
     slide_loop wr astep vstep n (v + vstep) (curr_addr + astep) (wr v curr_addr mem)"

definition ZeroCode_FillAndSlide :: "u32 \<Rightarrow> u32 \<Rightarrow> u32 \<Rightarrow> memory \<Rightarrow> bool \<times> memory" where
  "ZeroCode_FillAndSlide val_last addr data mem =
     (let new_addr = GCAddress val_last;
          size = (ucast (ar_size val_last) :: u8);
          addr_incr = (ucast (data AND 0xFFFF) :: u16);
          val_incr = (ucast (drop_bit 24 data) :: u8);
          write_num = (ucast (drop_bit 16 (data AND 0xFF0000)) :: u8) in
      if size = DATATYPE_8BIT then
        (True, slide_loop (\<lambda>v. HostWrite_U8 (ucast (v AND 0xFF))) (scast addr_incr)
                 (scast val_incr) (unat write_num) addr new_addr mem)
      else if size = DATATYPE_16BIT then
        (True, slide_loop (\<lambda>v. HostWrite_U16 (ucast (v AND 0xFFFF))) (scast addr_incr * 2)
                 (scast val_incr) (unat write_num) addr new_addr mem)
      else if size = DATATYPE_32BIT then
        (True, slide_loop HostWrite_U32 (scast addr_incr * 4)
                 (scast val_incr) (unat write_num) addr new_addr mem)
      else (False, mem))"

definition copy_bytes :: "u32 \<Rightarrow> u32 \<Rightarrow> nat \<Rightarrow> memory \<Rightarrow> memory" where
  "copy_bytes src dest n mem =
     fold (\<lambda>i m. HostWrite_U8 (HostRead_U8 m (src + of_nat i)) (dest + of_nat i) m) [0..<n] mem"

definition ZeroCode_MemoryCopy :: "u32 \<Rightarrow> u32 \<Rightarrow> u32 \<Rightarrow> memory \<Rightarrow> bool \<times> memory" where
  "ZeroCode_MemoryCopy val_last addr data mem =
     (let addr_dest = val_last AND NOT 0x06000000;
          addr_src = GCAddress addr;
          num_bytes = (ucast (data AND 0x7FFF) :: u8) in
      if data AND 0xFF0000 = 0 then
        (if drop_bit 24 data \<noteq> 0 then
           (let ptr_dest = HostRead_U32 mem addr_dest;
                ptr_src = HostRead_U32 mem addr_src in
            (True, copy_bytes ptr_src ptr_dest (unat num_bytes) mem))
         else (True, copy_bytes addr_src addr_dest (unat num_bytes) mem))
      else (False, mem))"

definition NormalCode :: "float_add \<Rightarrow> u32 \<Rightarrow> u32 \<Rightarrow> memory \<Rightarrow> bool \<times> memory" where
  "NormalCode fadd addr data mem =
     (if ar_subtype addr = SUB_RAM_WRITE then Subtype_RamWriteAndFill addr data mem
      else if ar_subtype addr = SUB_WRITE_POINTER then Subtype_WriteToPointer addr data mem
      else if ar_subtype addr = SUB_ADD_CODE then Subtype_AddCode fadd addr data mem
      else if ar_subtype addr = SUB_MASTER_CODE then
        Subtype_MasterCodeAndWriteToCCXXXXXX addr data mem
      else (False, mem))"

definition CompareValues :: "u32 \<Rightarrow> u32 \<Rightarrow> int \<Rightarrow> bool" where
  "CompareValues val1 val2 type =
     (if type = CONDTIONAL_EQUAL then val1 = val2
      else if type = CONDTIONAL_NOT_EQUAL then val1 \<noteq> val2
      else if type = CONDTIONAL_LESS_THAN_SIGNED then sint val1 < sint val2
      else if type = CONDTIONAL_GREATER_THAN_SIGNED then sint val1 > sint val2
      else if type = CONDTIONAL_LESS_THAN_UNSIGNED then val1 < val2
      else if type = CONDTIONAL_GREATER_THAN_UNSIGNED then val1 > val2
      else if type = CONDTIONAL_AND then val1 AND val2 \<noteq> 0
      else False)"

text \<open>
  The first switch of \<open>ConditionalCode\<close>: the comparison of the operand read at the width
  of the size field with the data masked to that width, \<open>None\<close> in the default case.
\<close>

definition compare_sized :: "u32 \<Rightarrow> u32 \<Rightarrow> memory \<Rightarrow> bool option" where
  "compare_sized addr data mem =
     (let new_addr = GCAddress addr in
      if ar_size addr = DATATYPE_8BIT then
        Some (CompareValues (ucast (HostRead_U8 mem new_addr)) (data AND 0xFF)
                (uint (ar_type addr)))
      else if ar_size addr = DATATYPE_16BIT then
        Some (CompareValues (ucast (HostRead_U16 mem new_addr)) (data AND 0xFFFF)
                (uint (ar_type addr)))
      else if ar_size addr = DATATYPE_32BIT_FLOAT \<or> ar_size addr = DATATYPE_32BIT then
        Some (CompareValues (HostRead_U32 mem new_addr) data (uint (ar_type addr)))
      else None)"

text \<open>\<open>ConditionalCode\<close> returns its \<open>bool\<close> and the skip count it leaves in \<open>*pSkipCount\<close>.\<close>

definition ConditionalCode :: "u32 \<Rightarrow> u32 \<Rightarrow> int \<Rightarrow> memory \<Rightarrow> bool \<times> int" where
  "ConditionalCode addr data pSkipCount mem =
     (case compare_sized addr data mem of
        None \<Rightarrow> (False, pSkipCount)
      | Some result \<Rightarrow>
          if result = False then
            (if ar_subtype addr = CONDTIONAL_ONE_LINE \<or> ar_subtype addr = CONDTIONAL_TWO_LINES
             then (True, uint (ar_subtype addr) + 1)
             else if ar_subtype addr = CONDTIONAL_ALL_LINES \<or>
                     ar_subtype addr = CONDTIONAL_ALL_LINES_UNTIL
             then (True, - uint (ar_subtype addr))
             else (False, pSkipCount))
          else (True, pSkipCount))"

section \<open>Code functions with their log\<close>

text \<open>
  The code functions once more, now with every call of \<open>LogInfo\<close> and \<open>PanicAlertT\<close>
  in its place, and with the variables of the process that these calls and
  \<open>RunCodeLocked\<close> read and write beside guest memory. The text of a message is kept as
  its format and the values of its arguments (\<open>StringFromFormatV\<close> of Common/StringUtil
  is not among the sources).
\<close>

datatype log_arg = ArgWord u32 | ArgInt int | ArgSize nat | ArgText string

type_synonym message = "string \<times> log_arg list"

text \<open>
  \<open>MAX_LOGLEVEL_below_LINFO\<close> is the constant test \<open>MAX_LOGLEVEL < LogTypes::LINFO\<close>;
  \<open>info_log\<close> holds the texts handed to \<open>INFO_LOG\<close> and \<open>panic_alerts\<close> those handed to
  \<open>PanicAlertT\<close>, in order (the sinks themselves are not among the sources);
  \<open>s_current_code\<close> is \<open>None\<close> for the null pointer.
\<close>

record hidden =
  MAX_LOGLEVEL_below_LINFO :: bool
  s_disable_logging :: bool
  s_use_internal_log :: bool
  s_internal_log :: "message list"
  info_log :: "message list"
  panic_alerts :: "message list"
  s_current_code :: "ARCode option"

definition LogInfo :: "message \<Rightarrow> hidden \<Rightarrow> hidden" where
  "LogInfo text h =
     (if s_disable_logging h then h
      else
        (let use_internal_log = s_use_internal_log h in
         if MAX_LOGLEVEL_below_LINFO h \<and> \<not> use_internal_log then h
         else
           (let h1 = h\<lparr>info_log := info_log h @ [text]\<rparr> in
            if use_internal_log
            then h1\<lparr>s_internal_log := s_internal_log h1 @ [(fst text @ ''\<newline>'', snd text)]\<rparr>
            else h1)))"

definition PanicAlertT :: "message \<Rightarrow> hidden \<Rightarrow> hidden" where
  "PanicAlertT text h = h\<lparr>panic_alerts := panic_alerts h @ [text]\<rparr>"

text \<open>
  \<open>s_current_code->name\<close>, the argument of many alerts. \<open>RunCodeLocked\<close> sets the pointer
  before any of them is reached.
\<close>

definition current_name :: "hidden \<Rightarrow> string" where
  "current_name h = (case s_current_code h of None \<Rightarrow> [] | Some code \<Rightarrow> name code)"

text \<open>
  Guest memory together with these variables, and the steps on it: consecutive calls of
  \<open>LogInfo\<close> (one \<open>logs\<close> with their texts in order), an alert, and the three writes.
\<close>

type_synonym machine = "memory \<times> hidden"

definition logs :: "message list \<Rightarrow> machine \<Rightarrow> machine" where
  "logs texts s = (fst s, fold LogInfo texts (snd s))"

definition alert_shown :: "message \<Rightarrow> machine \<Rightarrow> machine" where
  "alert_shown text s = (fst s, PanicAlertT text (snd s))"

definition store8 :: "u8 \<Rightarrow> u32 \<Rightarrow> machine \<Rightarrow> machine" where
  "store8 v a s = (HostWrite_U8 v a (fst s), snd s)"

definition store16 :: "u16 \<Rightarrow> u32 \<Rightarrow> machine \<Rightarrow> machine" where
  "store16 v a s = (HostWrite_U16 v a (fst s), snd s)"

definition store32 :: "u32 \<Rightarrow> u32 \<Rightarrow> machine \<Rightarrow> machine" where
  "store32 v a s = (HostWrite_U32 v a (fst s), snd s)"

definition Subtype_RamWriteAndFill_logged :: "u32 \<Rightarrow> u32 \<Rightarrow> machine \<Rightarrow> bool \<times> machine" where
  "Subtype_RamWriteAndFill_logged addr data s0 =
     (let new_addr = GCAddress addr;
          s = logs [(''Hardware Address: %08x'', [ArgWord new_addr]),
                    (''Size: %08x'', [ArgWord (ar_size addr)])] s0 in
      if ar_size addr = DATATYPE_8BIT then
        (let s = logs [(''8-bit Write'', []), (''--------'', [])] s;
             repeat = drop_bit 8 data;
             s = fold (\<lambda>i s.
                   logs [(''Wrote %08x to address %08x'',
                          [ArgWord (data AND 0xFF), ArgWord (new_addr + of_nat i)])]
                     (store8 (ucast (data AND 0xFF)) (new_addr + of_nat i) s))
                   [0..<Suc (unat repeat)] s;
             s = logs [(''--------'', [])] s in
         (True, s))
      else if ar_size addr = DATATYPE_16BIT then
        (let s = logs [(''16-bit Write'', []), (''--------'', [])] s;
             repeat = drop_bit 16 data;
             s = fold (\<lambda>i s.
                   logs [(''Wrote %08x to address %08x'',
                          [ArgWord (data AND 0xFFFF), ArgWord (new_addr + of_nat i * 2)])]
                     (store16 (ucast (data AND 0xFFFF)) (new_addr + of_nat i * 2) s))
                   [0..<Suc (unat repeat)] s;
             s = logs [(''--------'', [])] s in
         (True, s))
      else if ar_size addr = DATATYPE_32BIT_FLOAT \<or> ar_size addr = DATATYPE_32BIT then
        (let s = logs [(''32-bit Write'', []), (''--------'', [])] s;
             s = store32 data new_addr s;
             s = logs [(''Wrote %08x to address %08x'', [ArgWord data, ArgWord new_addr]),
                       (''--------'', [])] s in
         (True, s))
      else
        (let s = logs [(''Bad Size'', [])] s;
             s = alert_shown
                   (''Action Replay Error: Invalid size (%08x : address = %08x) in Ram Write And Fill (%s)'',
                    [ArgWord (ar_size addr), ArgWord (gcaddr addr),
                     ArgText (current_name (snd s))]) s in
         (False, s)))"

definition Subtype_WriteToPointer_logged :: "u32 \<Rightarrow> u32 \<Rightarrow> machine \<Rightarrow> bool \<times> machine" where
  "Subtype_WriteToPointer_logged addr data s0 =
     (let new_addr = GCAddress addr;
          ptr = HostRead_U32 (fst s0) new_addr;
          s = logs [(''Hardware Address: %08x'', [ArgWord new_addr]),
                    (''Size: %08x'', [ArgWord (ar_size addr)])] s0 in
      if ar_size addr = DATATYPE_8BIT then
        (let s = logs [(''Write 8-bit to pointer'', []), (''--------'', [])] s;
             thebyte = (ucast (data AND 0xFF) :: u8);
             offset = drop_bit 8 data;
             s = logs [(''Pointer: %08x'', [ArgWord ptr]),
                       (''Byte: %08x'', [ArgWord (ucast thebyte)]),
                       (''Offset: %08x'', [ArgWord offset])] s;
             s = store8 thebyte (ptr + offset) s;
             s = logs [(''Wrote %08x to address %08x'',
                        [ArgWord (ucast thebyte), ArgWord (ptr + offset)]),
                       (''--------'', [])] s in
         (True, s))
      else if ar_size addr = DATATYPE_16BIT then
        (let s = logs [(''Write 16-bit to pointer'', []), (''--------'', [])] s;
             theshort = (ucast (data AND 0xFFFF) :: u16);
             offset = push_bit 1 (drop_bit 16 data);
             s = logs [(''Pointer: %08x'', [ArgWord ptr]),
                       (''Byte: %08x'', [ArgWord (ucast theshort)]),
                       (''Offset: %08x'', [ArgWord offset])] s;
             s = store16 theshort (ptr + offset) s;
             s = logs [(''Wrote %08x to address %08x'',
                        [ArgWord (ucast theshort), ArgWord (ptr + offset)]),
                       (''--------'', [])] s in
         (True, s))
      else if ar_size addr = DATATYPE_32BIT_FLOAT \<or> ar_size addr = DATATYPE_32BIT then
        (let s = logs [(''Write 32-bit to pointer'', []), (''--------'', [])] s;
             s = store32 data ptr s;
             s = logs [(''Wrote %08x to address %08x'', [ArgWord data, ArgWord ptr]),
                       (''--------'', [])] s in
         (True, s))
      else
        (let s = logs [(''Bad Size'', [])] s;
             s = alert_shown
                   (''Action Replay Error: Invalid size (%08x : address = %08x) in Write To Pointer (%s)'',
                    [ArgWord (ar_size addr), ArgWord (gcaddr addr),
                     ArgText (current_name (snd s))]) s in
         (False, s)))"

definition Subtype_AddCode_logged ::
  "float_add \<Rightarrow> u32 \<Rightarrow> u32 \<Rightarrow> machine \<Rightarrow> bool \<times> machine" where
  "Subtype_AddCode_logged fadd addr data s0 =
     (let new_addr = GCAddress addr;
          s = logs [(''Hardware Address: %08x'', [ArgWord new_addr]),
                    (''Size: %08x'', [ArgWord (ar_size addr)])] s0 in
      if ar_size addr = DATATYPE_8BIT then
        (let s = logs [(''8-bit Add'', []), (''--------'', [])] s;
             s = store8 (ucast ((ucast (HostRead_U8 (fst s) new_addr) :: u32) + data)) new_addr s;
             s = logs [(''Wrote %02x to address %08x'',
                        [ArgWord (ucast (HostRead_U8 (fst s) new_addr)), ArgWord new_addr]),
                       (''--------'', [])] s in
         (True, s))
      else if ar_size addr = DATATYPE_16BIT then
        (let s = logs [(''16-bit Add'', []), (''--------'', [])] s;
             s = store16 (ucast ((ucast (HostRead_U16 (fst s) new_addr) :: u32) + data))
                   new_addr s;
             s = logs [(''Wrote %04x to address %08x'',
                        [ArgWord (ucast (HostRead_U16 (fst s) new_addr)), ArgWord new_addr]),
                       (''--------'', [])] s in
         (True, s))
      else if ar_size addr = DATATYPE_32BIT then
        (let s = logs [(''32-bit Add'', []), (''--------'', [])] s;
             s = store32 (HostRead_U32 (fst s) new_addr + data) new_addr s;
             s = logs [(''Wrote %08x to address %08x'',
                        [ArgWord (HostRead_U32 (fst s) new_addr), ArgWord new_addr]),
                       (''--------'', [])] s in
         (True, s))
      else if ar_size addr = DATATYPE_32BIT_FLOAT then
        (let s = logs [(''32-bit floating Add'', []), (''--------'', [])] s;
             read = HostRead_U32 (fst s) new_addr;
             newval = fadd read data;
             s = store32 newval new_addr s;
             s = logs [(''Old Value %08x'', [ArgWord read]),
                       (''Increment %08x'', [ArgWord data]),
                       (''New value %08x'', [ArgWord newval]),
                       (''--------'', [])] s in
         (True, s))
      else
        (let s = logs [(''Bad Size'', [])] s;
             s = alert_shown
                   (''Action Replay Error: Invalid size (%08x : address = %08x) in Add Code (%s)'',
                    [ArgWord (ar_size addr), ArgWord (gcaddr addr),
                     ArgText (current_name (snd s))]) s in
         (False, s)))"

definition Subtype_MasterCodeAndWriteToCCXXXXXX_logged ::
  "u32 \<Rightarrow> u32 \<Rightarrow> machine \<Rightarrow> bool \<times> machine" where
  "Subtype_MasterCodeAndWriteToCCXXXXXX_logged addr data s =
     (False, alert_shown
        (''Action Replay Error: Master Code and Write To CCXXXXXX not implemented (%s)\<newline>Master codes are not needed. Do not use master codes.'',
         [ArgText (current_name (snd s))]) s)"

text \<open>
  The loop of \<open>ZeroCode_FillAndSlide\<close> with its body as a parameter: the 8-bit case logs
  the write after it has advanced the cursor and the value, the other two before.
\<close>

primrec slide_loop_logged ::
  "(u32 \<Rightarrow> u32 \<Rightarrow> machine \<Rightarrow> machine) \<Rightarrow> u32 \<Rightarrow> u32 \<Rightarrow> nat \<Rightarrow> u32 \<Rightarrow> u32 \<Rightarrow> machine \<Rightarrow> machine"
  where
  "slide_loop_logged body astep vstep 0 v curr_addr s = s"
| "slide_loop_logged body astep vstep (Suc n) v curr_addr s =
     slide_loop_logged body astep vstep n (v + vstep) (curr_addr + astep) (body v curr_addr s)"

definition ZeroCode_FillAndSlide_logged ::
  "u32 \<Rightarrow> u32 \<Rightarrow> u32 \<Rightarrow> machine \<Rightarrow> bool \<times> machine" where
  "ZeroCode_FillAndSlide_logged val_last addr data s0 =
     (let new_addr = GCAddress val_last;
          size = (ucast (ar_size val_last) :: u8);
          addr_incr = (ucast (data AND 0xFFFF) :: u16);
          val_incr = (ucast (drop_bit 24 data) :: u8);
          write_num = (ucast (drop_bit 16 (data AND 0xFF0000)) :: u8);
          s = logs [(''Current Hardware Address: %08x'', [ArgWord new_addr]),
                    (''Size: %08x'', [ArgWord (ar_size addr)]),
                    (''Write Num: %08x'', [ArgWord (ucast write_num)]),
                    (''Address Increment: %i'', [ArgInt (sint addr_incr)]),
                    (''Value Increment: %i'', [ArgInt (sint val_incr)])] s0 in
      if size = DATATYPE_8BIT then
        (let s = logs [(''8-bit Write'', []), (''--------'', [])] s;
             s = slide_loop_logged
                   (\<lambda>v curr_addr s.
                      logs [(''Write %08x to address %08x'',
                             [ArgWord ((v + scast val_incr) AND 0xFF),
                              ArgWord (curr_addr + scast addr_incr)]),
                            (''Value Update: %08x'', [ArgWord (v + scast val_incr)]),
                            (''Current Hardware Address Update: %08x'',
                             [ArgWord (curr_addr + scast addr_incr)])]
                        (store8 (ucast (v AND 0xFF)) curr_addr s))
                   (scast addr_incr) (scast val_incr) (unat write_num) addr new_addr s;
             s = logs [(''--------'', [])] s in
         (True, s))
      else if size = DATATYPE_16BIT then
        (let s = logs [(''16-bit Write'', []), (''--------'', [])] s;
             s = slide_loop_logged
                   (\<lambda>v curr_addr s.
                      logs [(''Write %08x to address %08x'',
                             [ArgWord (v AND 0xFFFF), ArgWord curr_addr]),
                            (''Value Update: %08x'', [ArgWord (v + scast val_incr)]),
                            (''Current Hardware Address Update: %08x'',
                             [ArgWord (curr_addr + scast addr_incr * 2)])]
                        (store16 (ucast (v AND 0xFFFF)) curr_addr s))
                   (scast addr_incr * 2) (scast val_incr) (unat write_num) addr new_addr s;
             s = logs [(''--------'', [])] s in
         (True, s))
      else if size = DATATYPE_32BIT then
        (let s = logs [(''32-bit Write'', []), (''--------'', [])] s;
             s = slide_loop_logged
                   (\<lambda>v curr_addr s.
                      logs [(''Write %08x to address %08x'', [ArgWord v, ArgWord curr_addr]),
                            (''Value Update: %08x'', [ArgWord (v + scast val_incr)]),
                            (''Current Hardware Address Update: %08x'',
                             [ArgWord (curr_addr + scast addr_incr * 4)])]
                        (store32 v curr_addr s))
                   (scast addr_incr * 4) (scast val_incr) (unat write_num) addr new_addr s;
             s = logs [(''--------'', [])] s in
         (True, s))
      else
        (let s = logs [(''Bad Size'', [])] s;
             s = alert_shown
                   (''Action Replay Error: Invalid size (%08x : address = %08x) in Fill and Slide (%s)'',
                    [ArgWord (ucast size), ArgWord new_addr,
                     ArgText (current_name (snd s))]) s in
         (False, s)))"

definition copy_bytes_logged :: "u32 \<Rightarrow> u32 \<Rightarrow> nat \<Rightarrow> machine \<Rightarrow> machine" where
  "copy_bytes_logged src dest n s0 =
     fold (\<lambda>i s.
        (let s = store8 (HostRead_U8 (fst s) (src + of_nat i)) (dest + of_nat i) s in
         logs [(''Wrote %08x to address %08x'',
                [ArgWord (ucast (HostRead_U8 (fst s) (src + of_nat i))),
                 ArgWord (dest + of_nat i)])] s))
       [0..<n] s0"

definition ZeroCode_MemoryCopy_logged ::
  "u32 \<Rightarrow> u32 \<Rightarrow> u32 \<Rightarrow> machine \<Rightarrow> bool \<times> machine" where
  "ZeroCode_MemoryCopy_logged val_last addr data s0 =
     (let addr_dest = val_last AND NOT 0x06000000;
          addr_src = GCAddress addr;
          num_bytes = (ucast (data AND 0x7FFF) :: u8);
          s = logs [(''Dest Address: %08x'', [ArgWord addr_dest]),
                    (''Src Address: %08x'', [ArgWord addr_src]),
                    (''Size: %08x'', [ArgWord (ucast num_bytes)])] s0 in
      if data AND 0xFF0000 = 0 then
        (if drop_bit 24 data \<noteq> 0 then
           (let s = logs [(''Memory Copy With Pointers Support'', []), (''--------'', [])] s;
                ptr_dest = HostRead_U32 (fst s) addr_dest;
                s = logs [(''Resolved Dest Address to: %08x'', [ArgWord ptr_dest])] s;
                ptr_src = HostRead_U32 (fst s) addr_src;
                s = logs [(''Resolved Src Address to: %08x'', [ArgWord ptr_src])] s;
                s = copy_bytes_logged ptr_src ptr_dest (unat num_bytes) s;
                s = logs [(''--------'', [])] s in
            (True, s))
         else
           (let s = logs [(''Memory Copy Without Pointers Support'', []), (''--------'', [])] s;
                s = copy_bytes_logged addr_src addr_dest (unat num_bytes) s;
                s = logs [(''--------'', [])] s in
            (True, s)))
      else
        (let s = logs [(''Bad Value'', [])] s;
             s = alert_shown
                   (''Action Replay Error: Invalid value (%08x) in Memory Copy (%s)'',
                    [ArgWord (data AND NOT 0x7FFF), ArgText (current_name (snd s))]) s in
         (False, s)))"

definition NormalCode_logged :: "float_add \<Rightarrow> u32 \<Rightarrow> u32 \<Rightarrow> machine \<Rightarrow> bool \<times> machine" where
  "NormalCode_logged fadd addr data s =
     (if ar_subtype addr = SUB_RAM_WRITE then
        Subtype_RamWriteAndFill_logged addr data
          (logs [(''Doing Ram Write And Fill'', [])] s)
      else if ar_subtype addr = SUB_WRITE_POINTER then
        Subtype_WriteToPointer_logged addr data
          (logs [(''Doing Write To Pointer'', [])] s)
      else if ar_subtype addr = SUB_ADD_CODE then
        Subtype_AddCode_logged fadd addr data (logs [(''Doing Add Code'', [])] s)
      else if ar_subtype addr = SUB_MASTER_CODE then
        Subtype_MasterCodeAndWriteToCCXXXXXX_logged addr data
          (logs [(''Doing Master Code And Write to CCXXXXXX (ncode not supported)'', [])] s)
      else
        (let s = logs [(''Bad Subtype'', [])] s;
             s = alert_shown
                   (''Action Replay: Normal Code 0: Invalid Subtype %08x (%s)'',
                    [ArgWord (ar_subtype addr), ArgText (current_name (snd s))]) s in
         (False, s)))"

definition CompareValues_logged :: "u32 \<Rightarrow> u32 \<Rightarrow> int \<Rightarrow> machine \<Rightarrow> bool \<times> machine" where
  "CompareValues_logged val1 val2 type s =
     (if type = CONDTIONAL_EQUAL then
        (val1 = val2, logs [(''Type 1: If Equal'', [])] s)
      else if type = CONDTIONAL_NOT_EQUAL then
        (val1 \<noteq> val2, logs [(''Type 2: If Not Equal'', [])] s)
      else if type = CONDTIONAL_LESS_THAN_SIGNED then
        (sint val1 < sint val2, logs [(''Type 3: If Less Than (Signed)'', [])] s)
      else if type = CONDTIONAL_GREATER_THAN_SIGNED then
        (sint val1 > sint val2, logs [(''Type 4: If Greater Than (Signed)'', [])] s)
      else if type = CONDTIONAL_LESS_THAN_UNSIGNED then
        (val1 < val2, logs [(''Type 5: If Less Than (Unsigned)'', [])] s)
      else if type = CONDTIONAL_GREATER_THAN_UNSIGNED then
        (val1 > val2, logs [(''Type 6: If Greater Than (Unsigned)'', [])] s)
      else if type = CONDTIONAL_AND then
        (val1 AND val2 \<noteq> 0, logs [(''Type 7: If And'', [])] s)
      else
        (let s = logs [(''Unknown Compare type'', [])] s;
             s = alert_shown
                   (''Action Replay: Invalid Normal Code Type %08x (%s)'',
                    [ArgInt type, ArgText (current_name (snd s))]) s in
         (False, s)))"

definition compare_sized_logged :: "u32 \<Rightarrow> u32 \<Rightarrow> machine \<Rightarrow> bool option \<times> machine" where
  "compare_sized_logged addr data s0 =
     (let new_addr = GCAddress addr;
          s = logs [(''Size: %08x'', [ArgWord (ar_size addr)]),
                    (''Hardware Address: %08x'', [ArgWord new_addr])] s0 in
      if ar_size addr = DATATYPE_8BIT then
        (case CompareValues_logged (ucast (HostRead_U8 (fst s) new_addr)) (data AND 0xFF)
                (uint (ar_type addr)) s of
           (result, s) \<Rightarrow> (Some result, s))
      else if ar_size addr = DATATYPE_16BIT then
        (case CompareValues_logged (ucast (HostRead_U16 (fst s) new_addr)) (data AND 0xFFFF)
                (uint (ar_type addr)) s of
           (result, s) \<Rightarrow> (Some result, s))
      else if ar_size addr = DATATYPE_32BIT_FLOAT \<or> ar_size addr = DATATYPE_32BIT then
        (case CompareValues_logged (HostRead_U32 (fst s) new_addr) data
                (uint (ar_type addr)) s of
           (result, s) \<Rightarrow> (Some result, s))
      else
        (let s = logs [(''Bad Size'', [])] s;
             s = alert_shown
                   (''Action Replay: Conditional Code: Invalid Size %08x (%s)'',
                    [ArgWord (ar_size addr), ArgText (current_name (snd s))]) s in
         (None, s)))"

definition ConditionalCode_logged ::
  "u32 \<Rightarrow> u32 \<Rightarrow> int \<Rightarrow> machine \<Rightarrow> (bool \<times> int) \<times> machine" where
  "ConditionalCode_logged addr data pSkipCount s0 =
     (case compare_sized_logged addr data s0 of
        (None, s) \<Rightarrow> ((False, pSkipCount), s)
      | (Some result, s) \<Rightarrow>
          if result = False then
            (if ar_subtype addr = CONDTIONAL_ONE_LINE \<or> ar_subtype addr = CONDTIONAL_TWO_LINES
             then ((True, uint (ar_subtype addr) + 1), s)
             else if ar_subtype addr = CONDTIONAL_ALL_LINES \<or>
                     ar_subtype addr = CONDTIONAL_ALL_LINES_UNTIL
             then ((True, - uint (ar_subtype addr)), s)
             else
               (let s = logs [(''Bad Subtype'', [])] s;
                    s = alert_shown
                          (''Action Replay: Normal Code %i: Invalid subtype %08x (%s)'',
                           [ArgInt 1, ArgWord (ar_subtype addr),
                            ArgText (current_name (snd s))]) s in
                ((False, pSkipCount), s)))
          else ((True, pSkipCount), s))"


section \<open>The interpreter\<close>

text \<open>The local variables of \<open>RunCodeLocked\<close> that live across iterations of its loop.\<close>

record loop_state =
  do_fill_and_slide :: bool
  do_memory_copy :: bool
  skip_count :: int
  val_last :: u32

text \<open>
  One iteration of the loop over \<open>arcode.ops\<close> either goes on to the next entry
  (\<open>continue\<close>, or the end of the body) or returns from \<open>RunCodeLocked\<close>.
\<close>

datatype outcome = Continue loop_state memory | Return bool memory

definition run_entry :: "float_add \<Rightarrow> loop_state \<Rightarrow> AREntry \<Rightarrow> memory \<Rightarrow> outcome" where
  "run_entry fadd st entry mem =
     (let addr = cmd_addr entry; data = val entry in
      if skip_count st \<noteq> 0 then
        (if skip_count st > 0 then Continue (st\<lparr>skip_count := skip_count st - 1\<rparr>) mem
         else if - CONDTIONAL_ALL_LINES = skip_count st then Return True mem
         else if - CONDTIONAL_ALL_LINES_UNTIL = skip_count st then
           (if addr = 0 \<and> 0x40000000 = data then Continue (st\<lparr>skip_count := 0\<rparr>) mem
            else Continue st mem)
         else Continue st mem)
      else if do_fill_and_slide st then
        (case ZeroCode_FillAndSlide (val_last st) addr data mem of
           (ok, mem') \<Rightarrow>
             if ok = False then Return False mem'
             else Continue (st\<lparr>do_fill_and_slide := False\<rparr>) mem')
      else if do_memory_copy st then
        (case ZeroCode_MemoryCopy (val_last st) addr data mem of
           (ok, mem') \<Rightarrow>
             if ok = False then Return False mem'
             else Continue (st\<lparr>do_memory_copy := False\<rparr>) mem')
      else if addr \<ge> 0x00002000 \<and> addr < 0x00003000 then Return False mem
      else if 0 = addr then
        (let zcode = (ucast (drop_bit 29 data) :: u8) in
         if zcode = ZCODE_END then Return True mem
         else if zcode = ZCODE_NORM then Continue st mem
         else if zcode = ZCODE_ROW then Return False mem
         else if zcode = ZCODE_04 then
           (if 3 = drop_bit 25 data AND 3
            then Continue (st\<lparr>do_memory_copy := True, val_last := data\<rparr>) mem
            else Continue (st\<lparr>do_fill_and_slide := True, val_last := data\<rparr>) mem)
         else Return False mem)
      else if ar_type addr = 0 then
        (case NormalCode fadd addr data mem of
           (ok, mem') \<Rightarrow> if ok = False then Return False mem' else Continue st mem')
      else
        (case ConditionalCode addr data (skip_count st) mem of
           (ok, sc) \<Rightarrow>
             if ok = False then Return False mem else Continue (st\<lparr>skip_count := sc\<rparr>) mem))"

fun run_ops :: "float_add \<Rightarrow> loop_state \<Rightarrow> AREntry list \<Rightarrow> memory \<Rightarrow> bool \<times> memory" where
  "run_ops fadd st [] mem = (True, mem)"
| "run_ops fadd st (entry # rest) mem =
     (case run_entry fadd st entry mem of
        Continue st' mem' \<Rightarrow> run_ops fadd st' rest mem'
      | Return ok mem' \<Rightarrow> (ok, mem'))"

definition initial_state :: loop_state where
  "initial_state =
     \<lparr>do_fill_and_slide = False, do_memory_copy = False, skip_count = 0, val_last = 0\<rparr>"

definition RunCodeLocked :: "float_add \<Rightarrow> ARCode \<Rightarrow> memory \<Rightarrow> bool \<times> memory" where
  "RunCodeLocked fadd arcode mem = run_ops fadd initial_state (ops arcode) mem"

section \<open>The code store\<close>

text \<open>
  \<open>s_active_codes\<close> is passed and returned; \<open>bEnableCheats\<close> is the flag of the
  configuration. \<open>std::copy_if\<close> keeps the order of the codes it copies.
\<close>

definition ApplyCodes :: "bool \<Rightarrow> ARCode list \<Rightarrow> ARCode list \<Rightarrow> ARCode list" where
  "ApplyCodes bEnableCheats codes s_active_codes =
     (if \<not> bEnableCheats then s_active_codes
      else [] @ filter active codes)"

definition AddCode :: "bool \<Rightarrow> ARCode \<Rightarrow> ARCode list \<Rightarrow> ARCode list" where
  "AddCode bEnableCheats code s_active_codes =
     (if \<not> bEnableCheats then s_active_codes
      else if active code then s_active_codes @ [code]
      else s_active_codes)"

text \<open>
  The locked part of \<open>RunAllActive\<close>: \<open>std::remove_if\<close> calls \<open>RunCodeLocked\<close> on each
  active code once, first to last, and \<open>erase\<close> drops the codes whose run failed. The
  title-specific patches that \<open>RunAllActive\<close> applies before it takes the lock are not
  part of this pass.
\<close>

fun RunAllActive_locked :: "float_add \<Rightarrow> ARCode list \<Rightarrow> memory \<Rightarrow> ARCode list \<times> memory"
  where
  "RunAllActive_locked fadd [] mem = ([], mem)"
| "RunAllActive_locked fadd (code # rest) mem =
     (case RunCodeLocked fadd code mem of
        (success, mem') \<Rightarrow>
          (case RunAllActive_locked fadd rest mem' of
             (kept, mem'') \<Rightarrow> (if \<not> success then kept else code # kept, mem'')))"

section \<open>The interpreter with its log\<close>

text \<open>
  \<open>RunCodeLocked\<close> and the locked part of \<open>RunAllActive\<close> (lines 1883 to 1891: the
  removal of the codes that fail, \<open>LogInfo\<close> of a line break after each run, and the
  latch \<open>s_disable_logging = true\<close>) on guest memory and the hidden variables. The
  statics of the title-specific part of \<open>RunAllActive\<close>, which runs before the lock is
  taken, are no part of it.
\<close>

datatype outcome_logged = ContinueL loop_state machine | ReturnL bool machine

definition run_entry_logged ::
  "float_add \<Rightarrow> loop_state \<Rightarrow> AREntry \<Rightarrow> machine \<Rightarrow> outcome_logged" where
  "run_entry_logged fadd st entry s0 =
     (let addr = cmd_addr entry; data = val entry in
      if skip_count st \<noteq> 0 then
        (if skip_count st > 0 then
           ContinueL (st\<lparr>skip_count := skip_count st - 1\<rparr>) (logs [(''Line skipped'', [])] s0)
         else if - CONDTIONAL_ALL_LINES = skip_count st then
           ReturnL True (logs [(''All Lines skipped'', [])] s0)
         else if - CONDTIONAL_ALL_LINES_UNTIL = skip_count st then
           (let s = logs [(''Line skipped'', [])] s0 in
            if addr = 0 \<and> 0x40000000 = data then ContinueL (st\<lparr>skip_count := 0\<rparr>) s
            else ContinueL st s)
         else ContinueL st s0)
      else
        (let s = logs [(''--- Running Code: %08x %08x ---'', [ArgWord addr, ArgWord data])] s0 in
         if do_fill_and_slide st then
           (case ZeroCode_FillAndSlide_logged (val_last st) addr data
                   (logs [(''Doing Fill And Slide'', [])] s) of
              (ok, s) \<Rightarrow>
                if ok = False then ReturnL False s
                else ContinueL (st\<lparr>do_fill_and_slide := False\<rparr>) s)
         else if do_memory_copy st then
           (case ZeroCode_MemoryCopy_logged (val_last st) addr data
                   (logs [(''Doing Memory Copy'', [])] s) of
              (ok, s) \<Rightarrow>
                if ok = False then ReturnL False s
                else ContinueL (st\<lparr>do_memory_copy := False\<rparr>) s)
         else if addr \<ge> 0x00002000 \<and> addr < 0x00003000 then
           (let s = logs [(''This action replay simulator does not support codes that modify Action Replay itself.'', [])] s;
                s = alert_shown (''This action replay simulator does not support codes that modify Action Replay itself.'', []) s in
            ReturnL False s)
         else if 0 = addr then
           (let zcode = (ucast (drop_bit 29 data) :: u8);
                s = logs [(''Doing Zero Code %08x'', [ArgWord (ucast zcode)])] s in
            if zcode = ZCODE_END then ReturnL True (logs [(''ZCode: End Of Codes'', [])] s)
            else if zcode = ZCODE_NORM then
              ContinueL st
                (logs [(''ZCode: Normal execution of codes, set register 1BB4 to 0 (zcode not supported)'', [])] s)
            else if zcode = ZCODE_ROW then
              (let s = logs [(''ZCode: Executes all codes in the same row, Set register 1BB4 to 1 (zcode not supported)'', [])] s;
                   s = alert_shown (''Zero 3 code not supported'', []) s in
               ReturnL False s)
            else if zcode = ZCODE_04 then
              (if 3 = drop_bit 25 data AND 3
               then ContinueL (st\<lparr>do_memory_copy := True, val_last := data\<rparr>)
                      (logs [(''ZCode: Memory Copy'', [])] s)
               else ContinueL (st\<lparr>do_fill_and_slide := True, val_last := data\<rparr>)
                      (logs [(''ZCode: Fill And Slide'', [])] s))
            else
              (let s = logs [(''ZCode: Unknown'', [])] s;
                   s = alert_shown (''Zero code unknown to Dolphin: %08x'', [ArgWord (ucast zcode)]) s in
               ReturnL False s))
         else
           (let s = logs [(''Doing Normal Code %08x'', [ArgWord (ar_type addr)]),
                          (''Subtype: %08x'', [ArgWord (ar_subtype addr)])] s in
            if ar_type addr = 0 then
              (case NormalCode_logged fadd addr data s of
                 (ok, s) \<Rightarrow> if ok = False then ReturnL False s else ContinueL st s)
            else
              (case ConditionalCode_logged addr data (skip_count st)
                      (logs [(''This Normal Code is a Conditional Code'', [])] s) of
                 ((ok, sc), s) \<Rightarrow>
                   if ok = False then ReturnL False s
                   else ContinueL (st\<lparr>skip_count := sc\<rparr>) s))))"

fun run_ops_logged ::
  "float_add \<Rightarrow> loop_state \<Rightarrow> AREntry list \<Rightarrow> machine \<Rightarrow> bool \<times> machine" where
  "run_ops_logged fadd st [] s = (True, s)"
| "run_ops_logged fadd st (entry # rest) s =
     (case run_entry_logged fadd st entry s of
        ContinueL st' s' \<Rightarrow> run_ops_logged fadd st' rest s'
      | ReturnL ok s' \<Rightarrow> (ok, s'))"

definition RunCodeLocked_logged :: "float_add \<Rightarrow> ARCode \<Rightarrow> machine \<Rightarrow> bool \<times> machine" where
  "RunCodeLocked_logged fadd arcode s0 =
     (let s = (fst s0, (snd s0)\<lparr>s_current_code := Some arcode\<rparr>);
          s = logs [(''Code Name: %s'', [ArgText (name arcode)]),
                    (''Number of codes: %zu'', [ArgSize (length (ops arcode))])] s in
      run_ops_logged fadd initial_state (ops arcode) s)"

fun remove_failed_logged ::
  "float_add \<Rightarrow> ARCode list \<Rightarrow> machine \<Rightarrow> ARCode list \<times> machine" where
  "remove_failed_logged fadd [] s = ([], s)"
| "remove_failed_logged fadd (code # rest) s =
     (case RunCodeLocked_logged fadd code s of
        (success, s') \<Rightarrow>
          (case remove_failed_logged fadd rest (logs [(''\<newline>'', [])] s') of
             (kept, s'') \<Rightarrow> (if \<not> success then kept else code # kept, s'')))"

definition RunAllActive_locked_logged ::
  "float_add \<Rightarrow> ARCode list \<Rightarrow> machine \<Rightarrow> ARCode list \<times> machine" where
  "RunAllActive_locked_logged fadd s_active_codes s0 =
     (case remove_failed_logged fadd s_active_codes s0 of
        (kept, s) \<Rightarrow> (kept, (fst s, (snd s)\<lparr>s_disable_logging := True\<rparr>)))"

text \<open>What a logged result shows of guest memory: the hidden variables are dropped.\<close>

definition erase :: "'a \<times> machine \<Rightarrow> 'a \<times> memory" where
  "erase r = (fst r, fst (snd r))"

fun erase_outcome :: "outcome_logged \<Rightarrow> outcome" where
  "erase_outcome (ContinueL st s) = Continue st (fst s)"
| "erase_outcome (ReturnL ok s) = Return ok (fst s)"

section \<open>The parser\<close>

subsection \<open>Collaborators of the parser\<close>

text \<open>
  Modelled from the spec: \<open>IniFile\<close> (Common/IniFile) is not among the sources. Following
  section 6 of the specification, a file is structured text with named sections: it is
  modelled as the list of lines that \<open>GetLines\<close> yields for each section name, and
  \<open>SetLines\<close> replaces the lines of a section.
\<close>

type_synonym IniFile = "string \<Rightarrow> string list"

definition GetLines :: "IniFile \<Rightarrow> string \<Rightarrow> string list" where
  "GetLines ini sectionName = ini sectionName"

definition SetLines :: "IniFile \<Rightarrow> string \<Rightarrow> string list \<Rightarrow> IniFile" where
  "SetLines ini sectionName lines = ini(sectionName := lines)"

text \<open>
  Modelled from the spec: \<open>SplitString\<close> (Common/StringUtil) is not among the sources.
  It yields the pieces of the string between the occurrences of the delimiter, in order
  (the separated tokens of section 4.4), without one empty piece at the end: the empty
  string has no piece.
\<close>

fun split_raw :: "char \<Rightarrow> string \<Rightarrow> string list" where
  "split_raw delim [] = [[]]"
| "split_raw delim (c # cs) =
     (if c = delim then [] # split_raw delim cs
      else (c # hd (split_raw delim cs)) # tl (split_raw delim cs))"

definition SplitString :: "string \<Rightarrow> char \<Rightarrow> string list" where
  "SplitString str delim =
     (let output = split_raw delim str in
      if last output = [] then butlast output else output)"

text \<open>
  Modelled from the spec: \<open>TryParse\<close> (Common/StringUtil) is not among the sources.
  \<open>LoadCodes\<close> calls it on \<open>0x\<close> followed by a token only. It succeeds when what follows
  \<open>0x\<close> is a non-empty run of hexadecimal digits, of either case (section 6: hex tokens
  are case-insensitive), whose value fits 32 bits, and then yields that value.
\<close>

definition digit_value :: "char \<Rightarrow> int option" where
  "digit_value c =
     (let n = (of_char c :: int) in
      if 48 \<le> n \<and> n \<le> 57 then Some (n - 48)
      else if 65 \<le> n \<and> n \<le> 70 then Some (n - 55)
      else if 97 \<le> n \<and> n \<le> 102 then Some (n - 87)
      else None)"

definition is_hex_digit :: "char \<Rightarrow> bool" where
  "is_hex_digit c = (digit_value c \<noteq> None)"

fun hex_value :: "string \<Rightarrow> int \<Rightarrow> int option" where
  "hex_value [] acc = Some acc"
| "hex_value (c # cs) acc =
     (case digit_value c of None \<Rightarrow> None | Some d \<Rightarrow> hex_value cs (acc * 16 + d))"

definition TryParse :: "string \<Rightarrow> u32 option" where
  "TryParse str =
     (case str of
        c0 # c1 # d # ds \<Rightarrow>
          if c0 = CHR ''0'' \<and> c1 = CHR ''x'' then
            (case hex_value (d # ds) 0 of
               None \<Rightarrow> None
             | Some v \<Rightarrow> if v < 2 ^ 32 then Some (word_of_int v) else None)
          else None
      | _ \<Rightarrow> None)"

text \<open>
  Modelled from the spec: \<open>StringFromFormat\<close> (Common/StringUtil) is not among the
  sources. \<open>SaveCodes\<close> calls it with the format \<open>%08X %08X\<close> (section 6, Persistence):
  each of the two words as eight upper-case hexadecimal digits, a space between them.
\<close>

definition hex_char :: "int \<Rightarrow> char" where
  "hex_char d = char_of (if d < 10 then 48 + d else 55 + d)"

fun hex_digits :: "nat \<Rightarrow> int \<Rightarrow> string" where
  "hex_digits 0 n = []"
| "hex_digits (Suc k) n = hex_digits k (n div 16) @ [hex_char (n mod 16)]"

definition format_08X :: "u32 \<Rightarrow> string" where
  "format_08X w = hex_digits 8 (uint w)"

definition StringFromFormat_op :: "u32 \<Rightarrow> u32 \<Rightarrow> string" where
  "StringFromFormat_op a v = format_08X a @ '' '' @ format_08X v"

text \<open>
  The decryptor (Core/ARDecrypt) and the declaration of \<open>ARCode\<close> (Core/ActionReplay.h)
  are not among the sources. They are parameters of the model: \<open>DecryptARCode\<close> maps the
  buffered encrypted lines and the ops of the current code to the ops it leaves there,
  and \<open>default_active\<close>, \<open>default_user_defined\<close> are the flags of a default-constructed
  \<open>ARCode\<close>, whose name and ops are empty.
\<close>

record externals =
  DecryptARCode :: "string list \<Rightarrow> AREntry list \<Rightarrow> AREntry list"
  default_active :: bool
  default_user_defined :: bool

definition default_ARCode :: "externals \<Rightarrow> ARCode" where
  "default_ARCode ext =
     \<lparr>name = [], active = default_active ext, user_defined = default_user_defined ext,
      ops = []\<rparr>"

subsection \<open>SaveCodes\<close>

text \<open>The lines that \<open>SaveCodes\<close> emits for one user-defined code.\<close>

definition code_lines :: "ARCode \<Rightarrow> string list" where
  "code_lines code =
     (''$'' @ name code) # map (\<lambda>op. StringFromFormat_op (cmd_addr op) (val op)) (ops code)"

definition SaveCodes :: "IniFile \<Rightarrow> ARCode list \<Rightarrow> IniFile" where
  "SaveCodes local_ini codes =
     (let enabled_lines = map (\<lambda>code. ''$'' @ name code) (filter active codes);
          lines = concat (map (\<lambda>code. if user_defined code then code_lines code else [])
                    codes) in
      SetLines (SetLines local_ini ''ActionReplay_Enabled'' enabled_lines)
        ''ActionReplay'' lines)"

subsection \<open>LoadCodes\<close>

text \<open>The messages that \<open>LoadCodes\<close> shows with \<open>PanicAlertT\<close>, in the order shown.\<close>

datatype alert = InvalidLine string | InvalidAddress | InvalidValue

text \<open>
  The variables of \<open>LoadCodes\<close> that its loop over the lines of one file changes, and the
  alerts shown so far.
\<close>

record parse_state =
  codes :: "ARCode list"
  current_code :: ARCode
  encrypted_lines :: "string list"
  alerts :: "alert list"

text \<open>The two commits that a name line makes before it sets the name.\<close>

definition commit_plain :: "parse_state \<Rightarrow> parse_state" where
  "commit_plain s =
     (if ops (current_code s) \<noteq> [] then
        s\<lparr>codes := codes s @ [current_code s],
          current_code := (current_code s)\<lparr>ops := []\<rparr>\<rparr>
      else s)"

definition commit_encrypted :: "externals \<Rightarrow> parse_state \<Rightarrow> parse_state" where
  "commit_encrypted ext s =
     (if encrypted_lines s \<noteq> [] then
        (let c = (current_code s)
                   \<lparr>ops := DecryptARCode ext (encrypted_lines s) (ops (current_code s))\<rparr> in
         s\<lparr>codes := codes s @ [c], current_code := c\<lparr>ops := []\<rparr>, encrypted_lines := []\<rparr>)
      else s)"

text \<open>The body of the loop over the lines; \<open>is_local\<close> is \<open>ini == &local_ini\<close>.\<close>

definition parse_line ::
  "externals \<Rightarrow> string list \<Rightarrow> bool \<Rightarrow> string \<Rightarrow> parse_state \<Rightarrow> parse_state" where
  "parse_line ext enabled_names is_local line s =
     (if line = [] then s
      else if hd line = CHR ''$'' then
        (let s2 = commit_encrypted ext (commit_plain s) in
         s2\<lparr>current_code := (current_code s2)
              \<lparr>name := tl line, active := tl line \<in> set enabled_names,
               user_defined := is_local\<rparr>\<rparr>)
      else
        (let pieces = SplitString line CHR '' '' in
         if length pieces = 2 \<and> length (pieces ! 0) = 8 \<and> length (pieces ! 1) = 8 then
           (let success_addr = TryParse (''0x'' @ pieces ! 0);
                success_val = TryParse (''0x'' @ pieces ! 1) in
            if success_addr \<noteq> None \<and> success_val \<noteq> None then
              s\<lparr>current_code := (current_code s)
                   \<lparr>ops := ops (current_code s) @
                      [\<lparr>cmd_addr = the success_addr, val = the success_val\<rparr>]\<rparr>\<rparr>
            else
              s\<lparr>alerts := alerts s @ [InvalidLine line] @
                   (if success_addr = None then [InvalidAddress] else []) @
                   (if success_val = None then [InvalidValue] else [])\<rparr>)
         else
           (let pieces = SplitString line CHR ''-'' in
            if length pieces = 3 \<and> length (pieces ! 0) = 4 \<and> length (pieces ! 1) = 4 \<and>
               length (pieces ! 2) = 5
            then s\<lparr>encrypted_lines :=
                     encrypted_lines s @ [pieces ! 0 @ pieces ! 1 @ pieces ! 2]\<rparr>
            else s)))"

text \<open>After the last line of a file: the last code, which is not cleared.\<close>

definition finish_ini :: "externals \<Rightarrow> parse_state \<Rightarrow> parse_state" where
  "finish_ini ext s =
     (let s1 = (if ops (current_code s) \<noteq> [] then s\<lparr>codes := codes s @ [current_code s]\<rparr>
                else s) in
      if encrypted_lines s1 \<noteq> [] then
        (let c = (current_code s1)
                   \<lparr>ops := DecryptARCode ext (encrypted_lines s1) (ops (current_code s1))\<rparr> in
         s1\<lparr>codes := codes s1 @ [c], current_code := c\<rparr>)
      else s1)"

text \<open>
  One iteration of the loop over the two files: the codes and alerts so far go in, a fresh
  current code and an empty buffer of encrypted lines are set up, the lines are parsed.
\<close>

definition parse_ini ::
  "externals \<Rightarrow> string list \<Rightarrow> bool \<Rightarrow> string list \<Rightarrow> ARCode list \<times> alert list
     \<Rightarrow> ARCode list \<times> alert list" where
  "parse_ini ext enabled_names is_local lines acc =
     (let s0 = \<lparr>codes = fst acc, current_code = default_ARCode ext, encrypted_lines = [],
                alerts = snd acc\<rparr>;
          s = finish_ini ext (fold (parse_line ext enabled_names is_local) lines s0) in
      (codes s, alerts s))"

definition enabled_names_of :: "string list \<Rightarrow> string list" where
  "enabled_names_of enabled_lines =
     map tl (filter (\<lambda>line. length line \<noteq> 0 \<and> hd line = CHR ''$'') enabled_lines)"

text \<open>\<open>LoadCodes\<close> returns its codes and the alerts it has shown.\<close>

definition LoadCodes :: "externals \<Rightarrow> IniFile \<Rightarrow> IniFile \<Rightarrow> ARCode list \<times> alert list" where
  "LoadCodes ext global_ini local_ini =
     (let enabled_names = enabled_names_of (GetLines local_ini ''ActionReplay_Enabled'') in
      parse_ini ext enabled_names True (GetLines local_ini ''ActionReplay'')
        (parse_ini ext enabled_names False (GetLines global_ini ''ActionReplay'') ([], [])))"

subsection \<open>Kinds of lines\<close>

text \<open>
  The lines of the grammar of section 6: a blank line, a name line, and an instruction
  line of eight hexadecimal digits, one space, eight hexadecimal digits. A listing of
  plain codes is blank lines and entries, an entry being a name line and the instruction
  lines after it; \<open>wf_listing\<close> also admits blank lines inside an entry.
\<close>

definition blank_line :: "string \<Rightarrow> bool" where
  "blank_line l = (l = [])"

definition name_line :: "string \<Rightarrow> bool" where
  "name_line l = (l \<noteq> [] \<and> hd l = CHR ''$'')"

definition instr_line :: "string \<Rightarrow> bool" where
  "instr_line l =
     (length l = 17 \<and> list_all is_hex_digit (take 8 l) \<and> l ! 8 = CHR '' '' \<and>
      list_all is_hex_digit (drop 9 l))"

fun wf_listing :: "string list \<Rightarrow> bool" where
  "wf_listing [] = True"
| "wf_listing (l # ls) =
     (if blank_line l then wf_listing ls
      else name_line l \<and> list_all (\<lambda>l. blank_line l \<or> name_line l \<or> instr_line l) ls)"

text \<open>
  The tests of \<open>LoadCodes\<close> on a line that is not a name line: two pieces of eight
  characters between spaces, both of which parse, and three pieces of four, four and five
  characters between dashes.
\<close>

definition plain_shape :: "string \<Rightarrow> bool" where
  "plain_shape l =
     (let pieces = SplitString l CHR '' '' in
      length pieces = 2 \<and> length (pieces ! 0) = 8 \<and> length (pieces ! 1) = 8)"

definition plain_ok :: "string \<Rightarrow> bool" where
  "plain_ok l =
     (let pieces = SplitString l CHR '' '' in
      plain_shape l \<and> TryParse (''0x'' @ pieces ! 0) \<noteq> None \<and>
      TryParse (''0x'' @ pieces ! 1) \<noteq> None)"

definition encrypted_shape :: "string \<Rightarrow> bool" where
  "encrypted_shape l =
     (let pieces = SplitString l CHR ''-'' in
      length pieces = 3 \<and> length (pieces ! 0) = 4 \<and> length (pieces ! 1) = 4 \<and>
      length (pieces ! 2) = 5)"

subsection \<open>Notions for the proofs about the parser\<close>

text \<open>
  What a parse of the local file with enabled names \<open>E\<close> sets in a code, the codes it
  commits, the codes a state holds once its current code is committed, and the part of a
  state that decides the codes.
\<close>

definition flags_ok :: "string list \<Rightarrow> ARCode \<Rightarrow> bool" where
  "flags_ok E c = (user_defined c \<and> active c = (name c \<in> set E))"

definition code_ok :: "string list \<Rightarrow> ARCode \<Rightarrow> bool" where
  "code_ok E c = (ops c \<noteq> [] \<and> flags_ok E c)"

definition flush :: "parse_state \<Rightarrow> ARCode list" where
  "flush s = codes s @ (if ops (current_code s) \<noteq> [] then [current_code s] else [])"

definition core :: "parse_state \<Rightarrow> ARCode list \<times> ARCode \<times> string list" where
  "core s = (codes s, current_code s, encrypted_lines s)"

section \<open>Concrete inputs\<close>

text \<open>A guest memory of zero bytes, and a stand-in for the floating add in runs that never reach it.\<close>

definition zero_memory :: memory where
  "zero_memory = (\<lambda>a. 0)"

definition no_float_add :: float_add where
  "no_float_add = (\<lambda>read data. read)"

text \<open>Scenario S1 of the specification: one 8-bit write and fill.\<close>

definition S1_code :: ARCode where
  "S1_code = \<lparr>name = ''S1'', active = True, user_defined = True,
      ops = [\<lparr>cmd_addr = 0x00100003, val = 0x000A00FF\<rparr>]\<rparr>"

text \<open>Scenario S6 of the specification: a 32-bit write at guest address \<open>0x80002500\<close>.\<close>

definition S6_code :: ARCode where
  "S6_code = \<lparr>name = ''S6'', active = True, user_defined = True,
      ops = [\<lparr>cmd_addr = 0x04002500, val = 0x00000001\<rparr>]\<rparr>"

text \<open>
  A memory copy without pointers from \<open>0x80400000\<close> to \<open>0x80500000\<close> whose byte count
  \<open>0x100\<close> does not fit eight bits.
\<close>

definition copy256_code :: ARCode where
  "copy256_code = \<lparr>name = ''copy256'', active = True, user_defined = True,
      ops = [\<lparr>cmd_addr = 0x00000000, val = 0x86500000\<rparr>,
             \<lparr>cmd_addr = 0x00400000, val = 0x00000100\<rparr>]\<rparr>"

text \<open>
  A 16-bit equality test at \<open>0x80200000\<close> with subtype 1 (two lines), followed by two
  32-bit writes.
\<close>

definition cond16_entry :: AREntry where
  "cond16_entry = \<lparr>cmd_addr = 0x4A200000, val = 0x00001234\<rparr>"

definition write_a_entry :: AREntry where
  "write_a_entry = \<lparr>cmd_addr = 0x04300000, val = 0xAAAAAAAA\<rparr>"

definition write_b_entry :: AREntry where
  "write_b_entry = \<lparr>cmd_addr = 0x04301000, val = 0xBBBBBBBB\<rparr>"

definition endif_entry :: AREntry where
  "endif_entry = \<lparr>cmd_addr = 0x00000000, val = 0x40000000\<rparr>"

definition until_endif_state :: loop_state where
  "until_endif_state = initial_state\<lparr>skip_count := - 2\<rparr>"

definition inactive_code :: ARCode where
  "inactive_code = \<lparr>name = ''off'', active = False, user_defined = True,
      ops = [\<lparr>cmd_addr = 0x04300000, val = 0xAAAAAAAA\<rparr>]\<rparr>"

text \<open>
  For the parser: collaborators that decrypt nothing, a file without lines, scenario S5 of
  the specification with the codes it parses to, a listing with a line \<open>hello\<close>, and an
  instruction line whose first token is not hexadecimal.
\<close>

definition no_externals :: externals where
  "no_externals = \<lparr>DecryptARCode = (\<lambda>lines ops. ops), default_active = False,
     default_user_defined = False\<rparr>"

definition empty_ini :: IniFile where
  "empty_ini = (\<lambda>sectionName. [])"

definition S5_ini :: IniFile where
  "S5_ini = empty_ini
     (''ActionReplay'' := [''$A'', ''00100000 00000001'', ''$B'', ''00100004 00000002''],
      ''ActionReplay_Enabled'' := [''$B''])"

definition S5_codes :: "ARCode list" where
  "S5_codes =
     [\<lparr>name = ''A'', active = False, user_defined = True,
       ops = [\<lparr>cmd_addr = 0x00100000, val = 0x00000001\<rparr>]\<rparr>,
      \<lparr>name = ''B'', active = True, user_defined = True,
       ops = [\<lparr>cmd_addr = 0x00100004, val = 0x00000002\<rparr>]\<rparr>]"

definition hello_ini :: IniFile where
  "hello_ini = empty_ini(''ActionReplay'' := [''$A'', ''00100000 00000001'', ''hello''])"

definition badhex_line :: string where
  "badhex_line = ''0010000g 00000002''"

definition start_state :: parse_state where
  "start_state = \<lparr>codes = [], current_code = default_ARCode no_externals, encrypted_lines = [],
     alerts = []\<rparr>"

text \<open>
  For the pass: a memory that agrees with \<open>zero_memory\<close> on every byte, hidden variables
  with the internal log on, and hidden variables with logging off and another current
  code. For the parser: a local file with lines and enabled names of its own, to save into.
\<close>

definition rezeroed_memory :: memory where
  "rezeroed_memory = HostWrite_U8 0 0x80000000 zero_memory"

definition logging_hidden :: hidden where
  "logging_hidden = \<lparr>MAX_LOGLEVEL_below_LINFO = False, s_disable_logging = False,
     s_use_internal_log = True, s_internal_log = [], info_log = [], panic_alerts = [],
     s_current_code = None\<rparr>"

definition silent_hidden :: hidden where
  "silent_hidden = \<lparr>MAX_LOGLEVEL_below_LINFO = True, s_disable_logging = True,
     s_use_internal_log = False, s_internal_log = [], info_log = [], panic_alerts = [],
     s_current_code = Some inactive_code\<rparr>"

definition stale_ini :: IniFile where
  "stale_ini = empty_ini
     (''ActionReplay'' := [''$Z'', ''00000000 00000000''],
      ''ActionReplay_Enabled'' := [''$A'', ''$Z''])"

section \<open>The bit fields\<close>

lemma word_le3_cases: "(x::u32) \<le> 3 \<Longrightarrow> x = 0 \<or> x = 1 \<or> x = 2 \<or> x = 3"
proof -
  assume "x \<le> 3"
  then have "unat x \<le> 3" by (simp add: word_le_nat_alt)
  then have "unat x = 0 \<or> unat x = 1 \<or> unat x = 2 \<or> unat x = 3" by arith
  then show ?thesis by (simp add: word_unat_eq_iff)
qed

lemma ar_size_cases: "ar_size a = 0 \<or> ar_size a = 1 \<or> ar_size a = 2 \<or> ar_size a = 3"
  unfolding ar_size_def by (rule word_le3_cases) (rule word_and_le1)

lemma ar_subtype_cases:
  "ar_subtype a = 0 \<or> ar_subtype a = 1 \<or> ar_subtype a = 2 \<or> ar_subtype a = 3"
  unfolding ar_subtype_def by (rule word_le3_cases) (rule word_and_le1)

lemma type_nonzero_large: "ar_type a \<noteq> 0 \<Longrightarrow> \<not> a < 0x08000000"
proof
  assume nz: "ar_type a \<noteq> 0" and lt: "a < 0x08000000"
  from lt have "unat a < 2 ^ 27" by (simp add: word_less_nat_alt)
  then have "drop_bit 27 a = 0"
    by (simp add: word_unat_eq_iff unat_drop_bit_eq drop_bit_eq_div unat_div)
  with nz show False by (simp add: ar_type_def)
qed

section \<open>The size field never fails a normal or conditional code\<close>

lemma RamWriteAndFill_succeeds: "fst (Subtype_RamWriteAndFill addr data mem)"
  using ar_size_cases [of addr] by (auto simp: Subtype_RamWriteAndFill_def Let_def)

lemma WriteToPointer_succeeds: "fst (Subtype_WriteToPointer addr data mem)"
  using ar_size_cases [of addr] by (auto simp: Subtype_WriteToPointer_def Let_def)

lemma AddCode_succeeds: "fst (Subtype_AddCode fadd addr data mem)"
  using ar_size_cases [of addr] by (auto simp: Subtype_AddCode_def Let_def)

lemma compare_sized_Some: "\<exists>r. compare_sized addr data mem = Some r"
  using ar_size_cases [of addr] by (auto simp: compare_sized_def Let_def)

lemma ConditionalCode_succeeds: "fst (ConditionalCode addr data sc mem)"
  using compare_sized_Some [of addr data mem] ar_subtype_cases [of addr]
  by (auto simp: ConditionalCode_def)

lemma FillAndSlide_fails_on_size3:
  "fst (ZeroCode_FillAndSlide vl addr data mem) = (ar_size vl \<noteq> 3)"
  using ar_size_cases [of vl] by (auto simp: ZeroCode_FillAndSlide_def Let_def)

text \<open>
  Claim C9. The size field is two bits wide, and RAM Write and Fill, Write to Pointer, Add
  and Conditional each have a case for every one of its four values: whatever the
  instruction and the memory, none of them takes its invalid-size branch, and each
  returns success. Fill and Slide alone fails on the size, exactly when the size field of
  the stored word is 3.
\<close>

theorem invalid_size_unreachable:
  "fst (Subtype_RamWriteAndFill addr data mem) \<and>
   fst (Subtype_WriteToPointer addr data mem) \<and>
   fst (Subtype_AddCode fadd addr data mem) \<and>
   compare_sized addr data mem \<noteq> None \<and>
   fst (ConditionalCode addr data sc mem) \<and>
   fst (ZeroCode_FillAndSlide vl addr data mem) = (ar_size vl \<noteq> 3)"
  using compare_sized_Some [of addr data mem]
  by (auto simp: RamWriteAndFill_succeeds WriteToPointer_succeeds AddCode_succeeds
      ConditionalCode_succeeds FillAndSlide_fails_on_size3)

section \<open>The self-modification guard\<close>

text \<open>
  What the guard of \<open>RunCodeLocked\<close> does: it fails the code when the whole command word
  lies in \<open>[0x2000, 0x3000)\<close>, and such a word has size, type and subtype 0.
\<close>

lemma guard_on_raw_word:
  assumes "skip_count st = 0" "\<not> do_fill_and_slide st" "\<not> do_memory_copy st"
    and "0x00002000 \<le> cmd_addr entry" "cmd_addr entry < 0x00003000"
  shows "run_entry fadd st entry mem = Return False mem"
  using assms by (simp add: run_entry_def)

lemma guard_range_fields:
  assumes "a < 0x00003000"
  shows "ar_size a = 0 \<and> ar_type a = 0 \<and> ar_subtype a = 0"
proof -
  from assms have u: "unat a < 2 ^ 25" by (simp add: word_less_nat_alt)
  then have "drop_bit 25 a = 0" "drop_bit 27 a = 0" "drop_bit 30 a = 0"
    by (simp_all add: word_unat_eq_iff unat_drop_bit_eq drop_bit_eq_div unat_div)
  then show ?thesis by (simp add: ar_size_def ar_type_def ar_subtype_def)
qed

text \<open>
  Claim C1. The guard of \<open>RunCodeLocked\<close> compares the whole command word, size, type and
  subtype bits included, with \<open>0x2000\<close> and \<open>0x3000\<close>. The op \<open>(0x04002500, 0x00000001)\<close>
  has size 2 in its command word, so the guard lets it through: the run writes the 32-bit
  value 1 at guest address \<open>0x80002500\<close>, returns success, and the pass keeps the code.
\<close>

theorem guard_misses_sized_write:
  "RunCodeLocked fadd S6_code mem = (True, HostWrite_U32 1 0x80002500 mem) \<and>
   HostRead_U32 (snd (RunCodeLocked fadd S6_code mem)) 0x80002500 = 1 \<and>
   RunAllActive_locked fadd [S6_code] mem = ([S6_code], HostWrite_U32 1 0x80002500 mem)"
proof -
  have run: "RunCodeLocked fadd S6_code mem = (True, HostWrite_U32 1 0x80002500 mem)"
    by (simp add: S6_code_def RunCodeLocked_def initial_state_def run_entry_def NormalCode_def
        Subtype_RamWriteAndFill_def ar_type_def ar_subtype_def ar_size_def GCAddress_def
        gcaddr_def)
  then show ?thesis by (simp add: HostRead_U32_def HostWrite_U32_def)
qed

section \<open>Memory copy\<close>

text \<open>The byte count of a memory copy is the low byte of the data word.\<close>

lemma count_low_byte: "unat (ucast (data AND 0x7FFF :: u32) :: u8) = unat (data AND 0xFF)"
proof -
  have m8: "(0xFF::u32) = mask 8" by (simp add: mask_eq_exp_minus_1)
  have m15: "(0x7FFF::u32) = mask 15" by (simp add: mask_eq_exp_minus_1)
  show ?thesis
    unfolding m8 m15
    by (simp add: unsigned_ucast_eq unsigned_take_bit_eq flip: take_bit_eq_mask)
qed

lemma memory_copy_count:
  assumes "data AND 0xFF0000 = 0" "drop_bit 24 data = 0"
  shows "ZeroCode_MemoryCopy vl addr data mem =
           (True, copy_bytes (GCAddress addr) (vl AND NOT 0x06000000) (unat (data AND 0xFF)) mem)"
  using assms by (simp add: ZeroCode_MemoryCopy_def count_low_byte)

text \<open>
  Claim C2. \<open>ZeroCode_MemoryCopy\<close> keeps its byte count in a \<open>u8\<close>, so of
  \<open>data & 0x7FFF\<close> only the low eight bits count. With \<open>data = 0x100\<close> (upper bytes zero)
  the composite copies no byte at all and succeeds: guest memory is left as it was.
\<close>

theorem memory_copy_count_truncated:
  "ZeroCode_MemoryCopy 0x86500000 0x00400000 0x00000100 mem = (True, mem) \<and>
   RunCodeLocked fadd copy256_code mem = (True, mem)"
  by (simp add: ZeroCode_MemoryCopy_def copy_bytes_def copy256_code_def RunCodeLocked_def
      initial_state_def run_entry_def)

section \<open>Conditional codes and skipping\<close>

lemma conditional_dispatch:
  assumes "skip_count st = 0" "\<not> do_fill_and_slide st" "\<not> do_memory_copy st"
    and "ar_type (cmd_addr entry) \<noteq> 0"
  shows "run_entry fadd st entry mem =
     (case ConditionalCode (cmd_addr entry) (val entry) (skip_count st) mem of
        (ok, sc) \<Rightarrow>
          if ok = False then Return False mem else Continue (st\<lparr>skip_count := sc\<rparr>) mem)"
proof -
  from type_nonzero_large [OF assms(4)] have "\<not> cmd_addr entry < 0x08000000" .
  then have "\<not> cmd_addr entry < 0x3000" "cmd_addr entry \<noteq> 0"
    by (auto simp: word_less_nat_alt)
  with assms show ?thesis by (simp add: run_entry_def Let_def)
qed

text \<open>
  Claim C3. An entry whose type field is not 0, reached with skip count 0 and no pending
  composite, runs as a conditional; its sized comparison has a result. When the result is
  true the skip count stays 0 and the run goes on with the next entry. When it is false
  the skip count becomes 1, 2, -2 or -3 for subtype 0, 1, 2 or 3; after subtype 0 the one
  next entry, after subtype 1 the two next entries are passed over with memory and state
  as they were and the run resumes normally after them; after subtype 3 the run returns
  success at the next entry, memory untouched.
\<close>

theorem conditional_sets_skip_count:
  assumes "skip_count st = 0" "\<not> do_fill_and_slide st" "\<not> do_memory_copy st"
    and "ar_type (cmd_addr entry) \<noteq> 0"
  shows "\<exists>result. compare_sized (cmd_addr entry) (val entry) mem = Some result \<and>
     run_entry fadd st entry mem =
       Continue (st\<lparr>skip_count :=
          if result then 0
          else if ar_subtype (cmd_addr entry) = 0 then 1
          else if ar_subtype (cmd_addr entry) = 1 then 2
          else if ar_subtype (cmd_addr entry) = 2 then - 2
          else - 3\<rparr>) mem \<and>
     (result \<longrightarrow> run_ops fadd st (entry # rest) mem = run_ops fadd st rest mem) \<and>
     (\<not> result \<and> ar_subtype (cmd_addr entry) = 0 \<longrightarrow>
        run_ops fadd st (entry # e1 # rest) mem = run_ops fadd st rest mem) \<and>
     (\<not> result \<and> ar_subtype (cmd_addr entry) = 1 \<longrightarrow>
        run_ops fadd st (entry # e1 # e2 # rest) mem = run_ops fadd st rest mem) \<and>
     (\<not> result \<and> ar_subtype (cmd_addr entry) = 3 \<longrightarrow>
        run_ops fadd st (entry # e1 # rest) mem = (True, mem))"
proof -
  obtain result where r: "compare_sized (cmd_addr entry) (val entry) mem = Some result"
    using compare_sized_Some by blast
  have st0: "st\<lparr>skip_count := 0\<rparr> = st" using assms(1) by simp
  have step: "run_entry fadd st entry mem =
       Continue (st\<lparr>skip_count :=
          if result then 0
          else if ar_subtype (cmd_addr entry) = 0 then 1
          else if ar_subtype (cmd_addr entry) = 1 then 2
          else if ar_subtype (cmd_addr entry) = 2 then - 2
          else - 3\<rparr>) mem"
    using ar_subtype_cases [of "cmd_addr entry"] r assms(1)
    by (auto simp: conditional_dispatch [OF assms] ConditionalCode_def)
  have "result \<longrightarrow> run_ops fadd st (entry # rest) mem = run_ops fadd st rest mem"
    by (simp add: step st0)
  moreover have "\<not> result \<and> ar_subtype (cmd_addr entry) = 0 \<longrightarrow>
        run_ops fadd st (entry # e1 # rest) mem = run_ops fadd st rest mem"
    by (simp add: step) (simp add: run_entry_def st0)
  moreover have "\<not> result \<and> ar_subtype (cmd_addr entry) = 1 \<longrightarrow>
        run_ops fadd st (entry # e1 # e2 # rest) mem = run_ops fadd st rest mem"
    by (simp add: step) (simp add: run_entry_def st0)
  moreover have "\<not> result \<and> ar_subtype (cmd_addr entry) = 3 \<longrightarrow>
        run_ops fadd st (entry # e1 # rest) mem = (True, mem)"
    by (simp add: step) (simp add: run_entry_def)
  ultimately show ?thesis using r step by blast
qed

theorem conditional_sets_skip_count_witness:
  "skip_count initial_state = 0 \<and> \<not> do_fill_and_slide initial_state \<and>
   \<not> do_memory_copy initial_state \<and> ar_type (cmd_addr cond16_entry) \<noteq> 0 \<and>
   compare_sized (cmd_addr cond16_entry) (val cond16_entry) zero_memory = Some False \<and>
   ar_subtype (cmd_addr cond16_entry) = 1 \<and>
   run_entry no_float_add initial_state cond16_entry zero_memory =
     Continue (initial_state\<lparr>skip_count := 2\<rparr>) zero_memory \<and>
   run_ops no_float_add initial_state [cond16_entry, write_a_entry, write_b_entry] zero_memory =
     (True, zero_memory)"
proof -
  have h1: "skip_count initial_state = 0" by (simp add: initial_state_def)
  have h2: "\<not> do_fill_and_slide initial_state" by (simp add: initial_state_def)
  have h3: "\<not> do_memory_copy initial_state" by (simp add: initial_state_def)
  have h4: "ar_type (cmd_addr cond16_entry) \<noteq> 0" by (simp add: cond16_entry_def ar_type_def)
  have c: "compare_sized (cmd_addr cond16_entry) (val cond16_entry) zero_memory = Some False"
    by (simp add: cond16_entry_def compare_sized_def ar_size_def ar_type_def GCAddress_def
        gcaddr_def HostRead_U16_def zero_memory_def CompareValues_def)
  have s: "ar_subtype (cmd_addr cond16_entry) = 1" by (simp add: cond16_entry_def ar_subtype_def)
  from conditional_sets_skip_count [OF h1 h2 h3 h4, where mem = zero_memory
      and fadd = no_float_add and rest = "[]" and ?e1.0 = write_a_entry
      and ?e2.0 = write_b_entry]
  obtain result where r: "compare_sized (cmd_addr cond16_entry) (val cond16_entry) zero_memory
        = Some result"
    and e: "run_entry no_float_add initial_state cond16_entry zero_memory =
       Continue (initial_state\<lparr>skip_count :=
          if result then 0
          else if ar_subtype (cmd_addr cond16_entry) = 0 then 1
          else if ar_subtype (cmd_addr cond16_entry) = 1 then 2
          else if ar_subtype (cmd_addr cond16_entry) = 2 then - 2
          else - 3\<rparr>) zero_memory"
    and two: "\<not> result \<and> ar_subtype (cmd_addr cond16_entry) = 1 \<longrightarrow>
        run_ops no_float_add initial_state [cond16_entry, write_a_entry, write_b_entry]
          zero_memory = run_ops no_float_add initial_state [] zero_memory"
    by blast
  from r c have nr: "\<not> result" by simp
  from two nr s have "run_ops no_float_add initial_state
      [cond16_entry, write_a_entry, write_b_entry] zero_memory = (True, zero_memory)"
    by simp
  moreover from e nr s have "run_entry no_float_add initial_state cond16_entry zero_memory =
     Continue (initial_state\<lparr>skip_count := 2\<rparr>) zero_memory"
    by simp
  ultimately show ?thesis using h1 h2 h3 h4 c s by blast
qed

text \<open>
  Claim C4. At an entry reached with skip count -2 (skip until endif): when the entry is
  the raw pair \<open>(0x00000000, 0x40000000)\<close> the skip count becomes 0, memory and the rest
  of the state are as they were, and the run goes on with the next entry; any other entry
  leaves memory and the whole state, skip count included, as they were.
\<close>

theorem endif_clears_skip:
  assumes "skip_count st = - 2"
  shows "run_entry fadd st entry mem =
           (if cmd_addr entry = 0 \<and> val entry = 0x40000000
            then Continue (st\<lparr>skip_count := 0\<rparr>) mem else Continue st mem) \<and>
         run_ops fadd st (entry # rest) mem =
           run_ops fadd (if cmd_addr entry = 0 \<and> val entry = 0x40000000
                         then st\<lparr>skip_count := 0\<rparr> else st) rest mem"
  using assms by (auto simp: run_entry_def Let_def)

theorem endif_clears_skip_witness:
  "skip_count until_endif_state = - 2 \<and>
   run_entry no_float_add until_endif_state endif_entry zero_memory =
     Continue initial_state zero_memory \<and>
   run_entry no_float_add until_endif_state write_a_entry zero_memory =
     Continue until_endif_state zero_memory"
proof -
  have h: "skip_count until_endif_state = - 2" by (simp add: until_endif_state_def)
  show ?thesis
    using endif_clears_skip [OF h, of no_float_add endif_entry zero_memory "[]"]
      endif_clears_skip [OF h, of no_float_add write_a_entry zero_memory "[]"] h
    by (simp add: endif_entry_def write_a_entry_def until_endif_state_def initial_state_def)
qed

section \<open>8-bit write and fill\<close>

lemma fold_write8:
  "fold (\<lambda>i. HostWrite_U8 v (base + of_nat i)) [0..<n] mem a =
     (if \<exists>i<n. a = base + of_nat i then v else mem a)"
proof (induction n)
  case 0
  show ?case by simp
next
  case (Suc n)
  show ?case
    using Suc.IH less_Suc_eq by (auto simp: HostWrite_U8_def)
qed

lemma S1_range:
  "(\<exists>i<2561. a = (0x80100003::u32) + of_nat i) \<longleftrightarrow> 0x80100003 \<le> a \<and> a \<le> 0x80100A03"
proof
  assume "\<exists>i<2561. a = (0x80100003::u32) + of_nat i"
  then obtain i where i: "i < 2561" and a: "a = (0x80100003::u32) + of_nat i" by blast
  from i have "unat (of_nat i :: u32) = i" by (simp add: unat_of_nat)
  with i have "unat a = 0x80100003 + i" unfolding a by (simp add: unat_word_ariths)
  with i show "0x80100003 \<le> a \<and> a \<le> 0x80100A03" by (simp add: word_le_nat_alt)
next
  assume "0x80100003 \<le> a \<and> a \<le> 0x80100A03"
  then have b: "0x80100003 \<le> unat a" "unat a \<le> 0x80100A03"
    by (simp_all add: word_le_nat_alt)
  define i where "i = unat a - 0x80100003"
  from b have i: "i < 2561" and s: "unat a = 0x80100003 + i" by (simp_all add: i_def)
  from i have "unat (of_nat i :: u32) = i" by (simp add: unat_of_nat)
  with i s have "unat ((0x80100003::u32) + of_nat i) = unat a" by (simp add: unat_word_ariths)
  then have "a = 0x80100003 + of_nat i" by (simp add: word_unat_eq_iff)
  with i show "\<exists>i<2561. a = (0x80100003::u32) + of_nat i" by blast
qed

lemma S1_run:
  "RunCodeLocked fadd S1_code mem =
     (True, \<lambda>a. if 0x80100003 \<le> a \<and> a \<le> 0x80100A03 then 0xFF else mem a)"
proof -
  have "RunCodeLocked fadd S1_code mem =
     (True, fold (\<lambda>i. HostWrite_U8 0xFF (0x80100003 + of_nat i)) [0..<2561] mem)"
    by (simp add: S1_code_def RunCodeLocked_def initial_state_def run_entry_def NormalCode_def
        Subtype_RamWriteAndFill_def ar_type_def ar_subtype_def ar_size_def GCAddress_def
        gcaddr_def del: upt_Suc)
  also have "fold (\<lambda>i. HostWrite_U8 0xFF (0x80100003 + of_nat i)) [0..<2561] mem =
     (\<lambda>a. if 0x80100003 \<le> a \<and> a \<le> 0x80100A03 then 0xFF else mem a)"
    by (rule ext) (simp only: fold_write8 S1_range)
  finally show ?thesis .
qed

text \<open>
  Claim C5, as stated, fails: the command word \<open>0x00100003\<close> addresses \<open>0x80100003\<close>, and
  the repeat count of the 8-bit fill is \<open>0x000A00FF >> 8 = 0xA00\<close>. On a memory of zero
  bytes the run leaves the byte at \<open>0x80100000\<close> zero, and changes the byte at
  \<open>0x8010000B\<close> from zero to \<open>0xFF\<close>.
\<close>

theorem S1_fill_counterexample:
  "HostRead_U8 zero_memory 0x80100000 = 0 \<and>
   HostRead_U8 (snd (RunCodeLocked no_float_add S1_code zero_memory)) 0x80100000 = 0 \<and>
   HostRead_U8 zero_memory 0x8010000B = 0 \<and>
   HostRead_U8 (snd (RunCodeLocked no_float_add S1_code zero_memory)) 0x8010000B = 0xFF"
  by (simp add: S1_run HostRead_U8_def zero_memory_def)

text \<open>
  Claim C5, amended. Running once the code whose single op is \<open>(0x00100003, 0x000A00FF)\<close>
  succeeds, leaves every byte at guest addresses \<open>0x80100003\<close> through \<open>0x80100A03\<close>
  (inclusive) equal to \<open>0xFF\<close>, and leaves every other byte unchanged.
\<close>

theorem S1_fill_range:
  "fst (RunCodeLocked fadd S1_code mem) \<and>
   HostRead_U8 (snd (RunCodeLocked fadd S1_code mem)) a =
     (if 0x80100003 \<le> a \<and> a \<le> 0x80100A03 then 0xFF else HostRead_U8 mem a)"
  by (simp add: S1_run HostRead_U8_def)

section \<open>The per-tick pass and the code store\<close>

lemma locked_subseq: "subseq (fst (RunAllActive_locked fadd store mem)) store"
proof (induction store arbitrary: mem)
  case Nil
  show ?case by simp
next
  case (Cons c cs)
  obtain ok m1 where c: "RunCodeLocked fadd c mem = (ok, m1)" by fastforce
  obtain kept m2 where k: "RunAllActive_locked fadd cs m1 = (kept, m2)" by fastforce
  from Cons.IH [of m1] k have "subseq kept cs" by simp
  with c k show ?case by (auto intro: list_emb_Cons)
qed

subsection \<open>The logged functions leave the memory of the plain ones\<close>

lemma fst_logs: "fst (logs texts s) = fst s"
  by (simp add: logs_def)

lemma fst_alert_shown: "fst (alert_shown text s) = fst s"
  by (simp add: alert_shown_def)

lemma fst_store:
  "fst (store8 v8 a s) = HostWrite_U8 v8 a (fst s)"
  "fst (store16 v16 a s) = HostWrite_U16 v16 a (fst s)"
  "fst (store32 v32 a s) = HostWrite_U32 v32 a (fst s)"
  by (simp_all add: store8_def store16_def store32_def)

lemmas fst_machine = fst_logs fst_alert_shown fst_store

lemma fst_fold_logged:
  assumes "\<And>i s. fst (g i s) = f i (fst s)"
  shows "fst (fold g xs s) = fold f xs (fst s)"
  by (induction xs arbitrary: s) (simp_all add: assms)

lemma erase_RamWriteAndFill:
  "erase (Subtype_RamWriteAndFill_logged addr data s) = Subtype_RamWriteAndFill addr data (fst s)"
  by (simp add: erase_def Subtype_RamWriteAndFill_logged_def Subtype_RamWriteAndFill_def Let_def
      fst_machine fst_fold_logged [where f = "\<lambda>i. HostWrite_U8 (ucast (data AND 0xFF)) (GCAddress addr + of_nat i)"]
      fst_fold_logged [where f = "\<lambda>i. HostWrite_U16 (ucast (data AND 0xFFFF)) (GCAddress addr + of_nat i * 2)"]
      del: upt_Suc)

lemma erase_WriteToPointer:
  "erase (Subtype_WriteToPointer_logged addr data s) = Subtype_WriteToPointer addr data (fst s)"
  by (simp add: erase_def Subtype_WriteToPointer_logged_def Subtype_WriteToPointer_def Let_def
      fst_machine)

lemma erase_AddCode:
  "erase (Subtype_AddCode_logged fadd addr data s) = Subtype_AddCode fadd addr data (fst s)"
  by (simp add: erase_def Subtype_AddCode_logged_def Subtype_AddCode_def Let_def fst_machine)

lemma erase_MasterCode:
  "erase (Subtype_MasterCodeAndWriteToCCXXXXXX_logged addr data s) =
     Subtype_MasterCodeAndWriteToCCXXXXXX addr data (fst s)"
  by (simp add: erase_def Subtype_MasterCodeAndWriteToCCXXXXXX_logged_def
      Subtype_MasterCodeAndWriteToCCXXXXXX_def fst_machine)

lemma fst_slide_loop_logged:
  assumes "\<And>v c s. fst (body v c s) = wr v c (fst s)"
  shows "fst (slide_loop_logged body astep vstep n v c s) = slide_loop wr astep vstep n v c (fst s)"
  by (induction n arbitrary: v c s) (simp_all add: assms)

lemma erase_FillAndSlide:
  "erase (ZeroCode_FillAndSlide_logged vl addr data s) = ZeroCode_FillAndSlide vl addr data (fst s)"
  by (simp add: erase_def ZeroCode_FillAndSlide_logged_def ZeroCode_FillAndSlide_def Let_def
      fst_machine
      fst_slide_loop_logged [where wr = "\<lambda>v. HostWrite_U8 (ucast (v AND 0xFF))"]
      fst_slide_loop_logged [where wr = "\<lambda>v. HostWrite_U16 (ucast (v AND 0xFFFF))"]
      fst_slide_loop_logged [where wr = HostWrite_U32])

lemma fst_copy_bytes_logged: "fst (copy_bytes_logged src dest n s) = copy_bytes src dest n (fst s)"
  unfolding copy_bytes_logged_def copy_bytes_def
  by (rule fst_fold_logged) (simp add: Let_def fst_machine)

lemma erase_MemoryCopy:
  "erase (ZeroCode_MemoryCopy_logged vl addr data s) = ZeroCode_MemoryCopy vl addr data (fst s)"
  by (simp add: erase_def ZeroCode_MemoryCopy_logged_def ZeroCode_MemoryCopy_def Let_def
      fst_machine fst_copy_bytes_logged)

lemma erase_NormalCode:
  "erase (NormalCode_logged fadd addr data s) = NormalCode fadd addr data (fst s)"
  by (simp add: NormalCode_logged_def NormalCode_def erase_RamWriteAndFill erase_WriteToPointer
      erase_AddCode erase_MasterCode fst_machine)
    (simp add: erase_def Let_def fst_machine)

lemma CompareValues_logged_result:
  "fst (CompareValues_logged val1 val2 type s) = CompareValues val1 val2 type"
  "fst (snd (CompareValues_logged val1 val2 type s)) = fst s"
  by (simp_all add: CompareValues_logged_def CompareValues_def Let_def fst_machine)

lemma compare_sized_logged_result:
  "fst (compare_sized_logged addr data s) = compare_sized addr data (fst s)"
  "fst (snd (compare_sized_logged addr data s)) = fst s"
  by (simp_all add: compare_sized_logged_def compare_sized_def Let_def fst_machine
      case_prod_beta CompareValues_logged_result)

lemma ConditionalCode_logged_result:
  "fst (ConditionalCode_logged addr data sc s) = ConditionalCode addr data sc (fst s)"
  "fst (snd (ConditionalCode_logged addr data sc s)) = fst s"
proof -
  obtain r s' where c: "compare_sized_logged addr data s = (r, s')"
    by (cases "compare_sized_logged addr data s") blast
  with compare_sized_logged_result [of addr data s]
  have r: "r = compare_sized addr data (fst s)" and s': "fst s' = fst s" by simp_all
  show "fst (ConditionalCode_logged addr data sc s) = ConditionalCode addr data sc (fst s)"
    using r by (simp add: ConditionalCode_logged_def ConditionalCode_def c Let_def
        split: option.splits)
  show "fst (snd (ConditionalCode_logged addr data sc s)) = fst s"
    using s' by (simp add: ConditionalCode_logged_def c Let_def fst_machine split: option.splits)
qed

lemma erase_run_entry:
  "erase_outcome (run_entry_logged fadd st entry s) = run_entry fadd st entry (fst s)"
proof -
  have f: "fst (ZeroCode_FillAndSlide_logged vl a d s') = fst (ZeroCode_FillAndSlide vl a d (fst s'))"
    "fst (snd (ZeroCode_FillAndSlide_logged vl a d s')) = snd (ZeroCode_FillAndSlide vl a d (fst s'))"
    for vl a d s'
    using erase_FillAndSlide [of vl a d s'] by (simp_all add: erase_def prod_eq_iff)
  have m: "fst (ZeroCode_MemoryCopy_logged vl a d s') = fst (ZeroCode_MemoryCopy vl a d (fst s'))"
    "fst (snd (ZeroCode_MemoryCopy_logged vl a d s')) = snd (ZeroCode_MemoryCopy vl a d (fst s'))"
    for vl a d s'
    using erase_MemoryCopy [of vl a d s'] by (simp_all add: erase_def prod_eq_iff)
  have n: "fst (NormalCode_logged fadd a d s') = fst (NormalCode fadd a d (fst s'))"
    "fst (snd (NormalCode_logged fadd a d s')) = snd (NormalCode fadd a d (fst s'))"
    for a d s'
    using erase_NormalCode [of fadd a d s'] by (simp_all add: erase_def prod_eq_iff)
  consider (skip) "skip_count st \<noteq> 0"
    | (fill) "skip_count st = 0" "do_fill_and_slide st"
    | (copy) "skip_count st = 0" "\<not> do_fill_and_slide st" "do_memory_copy st"
    | (guard) "skip_count st = 0" "\<not> do_fill_and_slide st" "\<not> do_memory_copy st"
        "cmd_addr entry \<ge> 0x00002000 \<and> cmd_addr entry < 0x00003000"
    | (zero) "skip_count st = 0" "\<not> do_fill_and_slide st" "\<not> do_memory_copy st"
        "\<not> (cmd_addr entry \<ge> 0x00002000 \<and> cmd_addr entry < 0x00003000)" "0 = cmd_addr entry"
    | (normal) "skip_count st = 0" "\<not> do_fill_and_slide st" "\<not> do_memory_copy st"
        "\<not> (cmd_addr entry \<ge> 0x00002000 \<and> cmd_addr entry < 0x00003000)" "0 \<noteq> cmd_addr entry"
        "ar_type (cmd_addr entry) = 0"
    | (cond) "skip_count st = 0" "\<not> do_fill_and_slide st" "\<not> do_memory_copy st"
        "\<not> (cmd_addr entry \<ge> 0x00002000 \<and> cmd_addr entry < 0x00003000)" "0 \<noteq> cmd_addr entry"
        "ar_type (cmd_addr entry) \<noteq> 0"
    by blast
  then show ?thesis
  proof cases
    case skip
    then show ?thesis by (simp add: run_entry_logged_def run_entry_def Let_def fst_machine)
  next
    case fill
    then show ?thesis
      by (simp add: run_entry_logged_def run_entry_def Let_def case_prod_beta fst_machine f)
  next
    case copy
    then show ?thesis
      by (simp add: run_entry_logged_def run_entry_def Let_def case_prod_beta fst_machine m)
  next
    case guard
    then show ?thesis by (simp add: run_entry_logged_def run_entry_def Let_def fst_machine)
  next
    case zero
    then show ?thesis by (auto simp: run_entry_logged_def run_entry_def Let_def fst_machine)
  next
    case normal
    then show ?thesis
      by (auto simp: run_entry_logged_def run_entry_def Let_def case_prod_beta fst_machine n)
  next
    case cond
    then show ?thesis
      by (auto simp: run_entry_logged_def run_entry_def Let_def case_prod_beta fst_machine
          ConditionalCode_logged_result)
  qed
qed

lemma erase_run_ops:
  "erase (run_ops_logged fadd st entries s) = run_ops fadd st entries (fst s)"
proof (induction entries arbitrary: st s)
  case Nil
  show ?case by (simp add: erase_def)
next
  case (Cons entry rest)
  show ?case
  proof (cases "run_entry_logged fadd st entry s")
    case (ContinueL st' s')
    with erase_run_entry [of fadd st entry s]
    have "run_entry fadd st entry (fst s) = Continue st' (fst s')" by simp
    with ContinueL Cons.IH [of st' s'] show ?thesis by simp
  next
    case (ReturnL ok s')
    with erase_run_entry [of fadd st entry s]
    have "run_entry fadd st entry (fst s) = Return ok (fst s')" by simp
    with ReturnL show ?thesis by (simp add: erase_def)
  qed
qed

lemma erase_RunCodeLocked:
  "erase (RunCodeLocked_logged fadd arcode s) = RunCodeLocked fadd arcode (fst s)"
  by (simp add: RunCodeLocked_logged_def RunCodeLocked_def Let_def erase_run_ops fst_machine)

lemma erase_remove_failed:
  "erase (remove_failed_logged fadd cs s) = RunAllActive_locked fadd cs (fst s)"
proof (induction cs arbitrary: s)
  case Nil
  show ?case by (simp add: erase_def)
next
  case (Cons c cs)
  obtain ok s1 where r: "RunCodeLocked_logged fadd c s = (ok, s1)"
    by (cases "RunCodeLocked_logged fadd c s") blast
  with erase_RunCodeLocked [of fadd c s]
  have p: "RunCodeLocked fadd c (fst s) = (ok, fst s1)" by (simp add: erase_def)
  obtain kept s2 where k: "remove_failed_logged fadd cs (logs [(''\<newline>'', [])] s1) = (kept, s2)"
    by (cases "remove_failed_logged fadd cs (logs [(''\<newline>'', [])] s1)") blast
  with Cons.IH [of "logs [(''\<newline>'', [])] s1"]
  have q: "RunAllActive_locked fadd cs (fst s1) = (kept, fst s2)"
    by (simp add: erase_def fst_machine)
  from r p k q show ?case by (simp add: erase_def)
qed

lemma erase_pass:
  "erase (RunAllActive_locked_logged fadd cs s) = RunAllActive_locked fadd cs (fst s)"
  using erase_remove_failed [of fadd cs s]
  by (simp add: RunAllActive_locked_logged_def erase_def case_prod_beta)

text \<open>
  Claim C8. The locked pass, with all it reads and writes beside guest memory made
  explicit (the logging flags, the internal log, the texts logged and alerted, the
  pointer to the current code): whatever these hidden variables are at the start, the
  codes the pass keeps and the memory it leaves are those of \<open>RunAllActive_locked\<close>, a
  function of the code list and the memory (and of the host's floating add). So two
  passes over the same codes, started from memories that agree on every byte and from
  any two hidden states, keep the same codes and leave memories that agree on every byte.
\<close>

theorem pass_deterministic:
  assumes "\<forall>a. HostRead_U8 mem1 a = HostRead_U8 mem2 a"
  shows "erase (RunAllActive_locked_logged fadd cs (mem1, h1)) =
           RunAllActive_locked fadd cs mem1 \<and>
         fst (RunAllActive_locked_logged fadd cs (mem1, h1)) =
           fst (RunAllActive_locked_logged fadd cs (mem2, h2)) \<and>
         (\<forall>a. HostRead_U8 (fst (snd (RunAllActive_locked_logged fadd cs (mem1, h1)))) a =
               HostRead_U8 (fst (snd (RunAllActive_locked_logged fadd cs (mem2, h2)))) a)"
proof -
  from assms have m: "mem1 = mem2" by (auto simp: HostRead_U8_def)
  have e1: "erase (RunAllActive_locked_logged fadd cs (mem1, h1)) =
      RunAllActive_locked fadd cs mem1"
    using erase_pass [of fadd cs "(mem1, h1)"] by simp
  have e2: "erase (RunAllActive_locked_logged fadd cs (mem2, h2)) =
      RunAllActive_locked fadd cs mem1"
    using erase_pass [of fadd cs "(mem2, h2)"] m by simp
  from e1 e2 show ?thesis by (simp add: erase_def prod_eq_iff)
qed

theorem pass_deterministic_witness:
  "(\<forall>a. HostRead_U8 zero_memory a = HostRead_U8 rezeroed_memory a) \<and>
   s_internal_log (snd (snd (RunAllActive_locked_logged no_float_add [S6_code]
       (zero_memory, logging_hidden)))) \<noteq>
     s_internal_log (snd (snd (RunAllActive_locked_logged no_float_add [S6_code]
       (rezeroed_memory, silent_hidden)))) \<and>
   fst (RunAllActive_locked_logged no_float_add [S6_code] (zero_memory, logging_hidden)) =
     fst (RunAllActive_locked_logged no_float_add [S6_code] (rezeroed_memory, silent_hidden)) \<and>
   (\<forall>a. HostRead_U8 (fst (snd (RunAllActive_locked_logged no_float_add [S6_code]
            (zero_memory, logging_hidden)))) a =
        HostRead_U8 (fst (snd (RunAllActive_locked_logged no_float_add [S6_code]
            (rezeroed_memory, silent_hidden)))) a)"
proof -
  have h: "\<forall>a. HostRead_U8 zero_memory a = HostRead_U8 rezeroed_memory a"
    by (simp add: rezeroed_memory_def zero_memory_def HostWrite_U8_def HostRead_U8_def)
  have d: "s_internal_log (snd (snd (RunAllActive_locked_logged no_float_add [S6_code]
       (zero_memory, logging_hidden)))) \<noteq>
     s_internal_log (snd (snd (RunAllActive_locked_logged no_float_add [S6_code]
       (rezeroed_memory, silent_hidden))))"
    by code_simp
  from pass_deterministic [OF h, of no_float_add "[S6_code]" logging_hidden silent_hidden] h d
  show ?thesis by blast
qed

text \<open>
  Claim C10. Every code in the store is active, and every operation on the store keeps it
  so. From a store of active codes: \<open>ApplyCodes\<close> leaves a store of active codes, and with
  cheats enabled this store is the active codes of its argument in their order;
  \<open>AddCode\<close> leaves a store of active codes, and with cheats enabled it appends its
  argument when that is active and does nothing otherwise; the locked pass leaves a
  subsequence of the store, each code as it was.
\<close>

theorem store_holds_active_codes:
  assumes "\<forall>c \<in> set store. active c"
  shows "(\<forall>c \<in> set (ApplyCodes en new_codes store). active c) \<and>
         (en \<longrightarrow> ApplyCodes en new_codes store = filter active new_codes) \<and>
         (\<forall>c \<in> set (AddCode en code store). active c) \<and>
         (en \<longrightarrow> AddCode en code store = (if active code then store @ [code] else store)) \<and>
         subseq (fst (RunAllActive_locked fadd store mem)) store \<and>
         (\<forall>c \<in> set (fst (RunAllActive_locked fadd store mem)). active c)"
proof -
  have "set (fst (RunAllActive_locked fadd store mem)) \<subseteq> set store"
    using locked_subseq [of fadd store mem] by (auto elim: list_emb_set)
  with assms show ?thesis
    by (auto simp: ApplyCodes_def AddCode_def locked_subseq)
qed

theorem store_holds_active_codes_witness:
  "active S6_code \<and>
   ApplyCodes True [inactive_code, S1_code, S6_code] [S6_code] = [S1_code, S6_code] \<and>
   AddCode True inactive_code [S6_code] = [S6_code] \<and>
   AddCode True S1_code [S6_code] = [S6_code, S1_code] \<and>
   list_all active (fst (RunAllActive_locked no_float_add [S6_code] zero_memory))"
proof -
  have h: "\<forall>c \<in> set [S6_code]. active c" by (simp add: S6_code_def)
  show ?thesis
    using store_holds_active_codes [OF h, of True "[inactive_code, S1_code, S6_code]"
        inactive_code no_float_add zero_memory]
      store_holds_active_codes [OF h, of True "[]" S1_code no_float_add zero_memory] h
    by (simp add: inactive_code_def S1_code_def S6_code_def list_all_iff)
qed

section \<open>The parser: its collaborators\<close>

lemma split_raw_no_delim: "delim \<notin> set b \<Longrightarrow> split_raw delim b = [b]"
  by (induction b) auto

lemma split_raw_at_delim:
  "delim \<notin> set a \<Longrightarrow> split_raw delim (a @ delim # b) = a # split_raw delim b"
  by (induction a) auto

lemma SplitString_two:
  assumes "delim \<notin> set a" "delim \<notin> set b" "b \<noteq> []"
  shows "SplitString (a @ delim # b) delim = [a, b]"
  using assms by (simp add: SplitString_def split_raw_at_delim split_raw_no_delim)

lemma digit_value_range: "digit_value c = Some d \<Longrightarrow> 0 \<le> d \<and> d < 16"
  by (auto simp: digit_value_def Let_def split: if_splits)

lemma hex_not_space: "is_hex_digit c \<Longrightarrow> c \<noteq> CHR '' ''"
  by (auto simp: is_hex_digit_def digit_value_def)

lemma hex_value_total:
  "list_all is_hex_digit p \<Longrightarrow> 0 \<le> acc \<Longrightarrow>
   \<exists>v. hex_value p acc = Some v \<and> 0 \<le> v \<and> v < (acc + 1) * 16 ^ length p"
proof (induction p arbitrary: acc)
  case Nil
  then show ?case by simp
next
  case (Cons c p)
  from Cons.prems obtain d where d: "digit_value c = Some d"
    by (auto simp: is_hex_digit_def)
  then have r: "0 \<le> d" "d < 16" using digit_value_range by blast+
  from Cons.prems r have "0 \<le> acc * 16 + d" by simp
  with Cons.IH [of "acc * 16 + d"] Cons.prems
  obtain v where v: "hex_value p (acc * 16 + d) = Some v" "0 \<le> v"
    "v < (acc * 16 + d + 1) * 16 ^ length p" by auto
  from r have "acc * 16 + d + 1 \<le> (acc + 1) * 16" by simp
  then have "(acc * 16 + d + 1) * 16 ^ length p \<le> (acc + 1) * 16 * 16 ^ length p"
    by (rule mult_right_mono) simp
  with v have "v < (acc + 1) * 16 * 16 ^ length p" by linarith
  then have "v < (acc + 1) * 16 ^ length (c # p)" by (simp add: algebra_simps)
  with v d show ?case by simp
qed

lemma TryParse_hex8:
  assumes "list_all is_hex_digit p" "length p = 8"
  shows "\<exists>w. TryParse (''0x'' @ p) = Some w"
proof -
  from hex_value_total [OF assms(1), of 0] assms(2)
  obtain v where v: "hex_value p 0 = Some v" "v < 16 ^ 8" by auto
  from assms(2) obtain d ds where p: "p = d # ds" by (cases p) auto
  from v show ?thesis unfolding p by (simp add: TryParse_def)
qed

lemma instr_line_split:
  assumes "instr_line l"
  shows "SplitString l CHR '' '' = [take 8 l, drop 9 l]"
proof -
  from assms have len: "length l = 17" and sp: "l ! 8 = CHR '' ''"
    and h1: "list_all is_hex_digit (take 8 l)" and h2: "list_all is_hex_digit (drop 9 l)"
    by (simp_all add: instr_line_def)
  from len have "drop 8 l = l ! 8 # drop (Suc 8) l" using Cons_nth_drop_Suc [of 8 l] by simp
  moreover have "Suc 8 = 9" by simp
  ultimately have "drop 8 l = l ! 8 # drop 9 l" by (simp only:)
  with sp append_take_drop_id [of 8 l] have l: "l = take 8 l @ CHR '' '' # drop 9 l"
    by simp
  from h1 have n1: "CHR '' '' \<notin> set (take 8 l)" using hex_not_space by (auto simp: list_all_iff)
  from h2 have n2: "CHR '' '' \<notin> set (drop 9 l)" using hex_not_space by (auto simp: list_all_iff)
  from len have ne: "drop 9 l \<noteq> []" by simp
  show ?thesis by (subst l) (rule SplitString_two [OF n1 n2 ne])
qed

lemma instr_line_parse:
  assumes "instr_line l"
  shows "parse_line ext E loc l s =
           s\<lparr>current_code := (current_code s)\<lparr>ops := ops (current_code s) @
              [\<lparr>cmd_addr = the (TryParse (''0x'' @ take 8 l)),
                val = the (TryParse (''0x'' @ drop 9 l))\<rparr>]\<rparr>\<rparr>"
proof -
  from assms have len: "length l = 17"
    and h1: "list_all is_hex_digit (take 8 l)" and h2: "list_all is_hex_digit (drop 9 l)"
    by (simp_all add: instr_line_def)
  from len obtain c cs where l: "l = c # cs" by (cases l) auto
  from h1 len have "is_hex_digit (hd l)" by (cases l) auto
  then have nd: "hd l \<noteq> CHR ''$''" by (auto simp: is_hex_digit_def digit_value_def)
  from TryParse_hex8 [OF h1] len obtain w1 where w1: "TryParse (''0x'' @ take 8 l) = Some w1"
    by auto
  from TryParse_hex8 [OF h2] len obtain w2 where w2: "TryParse (''0x'' @ drop 9 l) = Some w2"
    by auto
  from len have ne: "l \<noteq> []" by auto
  show ?thesis
    using ne nd w1 w2 len
    by (simp add: parse_line_def instr_line_split [OF assms])
qed

lemma digit_value_hex_char: "0 \<le> d \<Longrightarrow> d < 16 \<Longrightarrow> digit_value (hex_char d) = Some d"
  by (auto simp: digit_value_def hex_char_def Let_def)

lemma hex_value_append:
  "hex_value (xs @ ys) acc =
     (case hex_value xs acc of None \<Rightarrow> None | Some a \<Rightarrow> hex_value ys a)"
  by (induction xs arbitrary: acc) (auto split: option.splits)

lemma hex_value_hex_digits:
  "0 \<le> n \<Longrightarrow> hex_value (hex_digits k n) acc = Some (acc * 16 ^ k + n mod 16 ^ k)"
proof (induction k arbitrary: n acc)
  case 0
  show ?case by simp
next
  case (Suc k)
  from Suc.prems have d: "0 \<le> n div 16" by simp
  have m: "0 \<le> n mod 16" "n mod 16 < 16" by simp_all
  have "n mod (16 * 16 ^ k) = 16 * (n div 16 mod 16 ^ k) + n mod 16"
    by (rule zmod_zmult2_eq) simp
  then show ?case
    using Suc.IH [OF d, of acc] digit_value_hex_char [OF m]
    by (simp add: hex_value_append algebra_simps)
qed

lemma length_hex_digits: "length (hex_digits k n) = k"
  by (induction k arbitrary: n) auto

lemma hex_digits_are_hex: "list_all is_hex_digit (hex_digits k n)"
proof (induction k arbitrary: n)
  case 0
  show ?case by simp
next
  case (Suc k)
  have m: "0 \<le> n mod 16" "n mod 16 < 16" by simp_all
  from digit_value_hex_char [OF m] Suc.IH show ?case by (simp add: is_hex_digit_def)
qed

lemma TryParse_format: "TryParse (''0x'' @ format_08X w) = Some w"
proof -
  obtain d ds where p: "hex_digits 8 (uint w) = d # ds"
    using length_hex_digits [of 8 "uint w"] by (cases "hex_digits 8 (uint w)") auto
  have "uint w < 2 ^ 32" using uint_bounded [of w] by simp
  then have u: "uint w mod 16 ^ 8 = uint w" by simp
  have "hex_value (hex_digits 8 (uint w)) 0 = Some (uint w)"
    using hex_value_hex_digits [of "uint w" 8 0] u by simp
  then have "hex_value (d # ds) 0 = Some (uint w)" using p by simp
  moreover have "uint w < 2 ^ 32" using uint_bounded [of w] by simp
  ultimately show ?thesis by (simp add: TryParse_def format_08X_def p)
qed

lemma format_instr_line: "instr_line (StringFromFormat_op a v)"
  by (simp add: instr_line_def StringFromFormat_op_def format_08X_def length_hex_digits
      hex_digits_are_hex nth_append)

lemma parse_formatted_line:
  "parse_line ext E loc (StringFromFormat_op a v) s =
     s\<lparr>current_code := (current_code s)\<lparr>ops := ops (current_code s) @
        [\<lparr>cmd_addr = a, val = v\<rparr>]\<rparr>\<rparr>"
proof -
  have t: "take 8 (StringFromFormat_op a v) = format_08X a"
    by (simp add: StringFromFormat_op_def format_08X_def length_hex_digits)
  have d: "drop 9 (StringFromFormat_op a v) = format_08X v"
    by (simp add: StringFromFormat_op_def format_08X_def length_hex_digits)
  show ?thesis
    by (simp only: instr_line_parse [OF format_instr_line] t d TryParse_format option.sel)
qed

lemma instr_line_plain_ok: "instr_line l \<Longrightarrow> plain_ok l"
proof -
  assume i: "instr_line l"
  then have len: "length l = 17"
    and h1: "list_all is_hex_digit (take 8 l)" and h2: "list_all is_hex_digit (drop 9 l)"
    by (simp_all add: instr_line_def)
  from TryParse_hex8 [OF h1] len obtain w1 where "TryParse (''0x'' @ take 8 l) = Some w1"
    by auto
  moreover from TryParse_hex8 [OF h2] len
  obtain w2 where "TryParse (''0x'' @ drop 9 l) = Some w2" by auto
  ultimately show ?thesis
    using len by (simp add: plain_ok_def plain_shape_def instr_line_split [OF i])
qed

section \<open>Parsing a listing of plain codes\<close>

lemma name_line_parse:
  assumes "name_line l" "encrypted_lines s = []"
  shows "parse_line ext E loc l s =
     s\<lparr>codes := flush s,
       current_code := (current_code s)\<lparr>ops := [], name := tl l, active := tl l \<in> set E,
          user_defined := loc\<rparr>\<rparr>"
  using assms
  by (simp add: name_line_def parse_line_def commit_plain_def commit_encrypted_def flush_def)

lemma instr_line_not_name: "instr_line l \<Longrightarrow> \<not> name_line l"
proof
  assume i: "instr_line l" and n: "name_line l"
  from i have "length l = 17" "list_all is_hex_digit (take 8 l)" by (simp_all add: instr_line_def)
  then have "is_hex_digit (hd l)" by (cases l) auto
  with n show False by (auto simp: name_line_def is_hex_digit_def digit_value_def)
qed

lemma line_keeps_ok:
  assumes "encrypted_lines s = []" "flags_ok E (current_code s)"
    "list_all (code_ok E) (codes s)"
    and "blank_line l \<or> name_line l \<or> instr_line l"
  shows "encrypted_lines (parse_line ext E True l s) = [] \<and>
         flags_ok E (current_code (parse_line ext E True l s)) \<and>
         list_all (code_ok E) (codes (parse_line ext E True l s))"
proof -
  consider "blank_line l" | "name_line l" | "instr_line l" using assms(4) by blast
  then show ?thesis
  proof cases
    case 1
    with assms show ?thesis by (simp add: blank_line_def parse_line_def)
  next
    case 2
    with assms show ?thesis
      by (simp add: name_line_parse flush_def flags_ok_def code_ok_def)
  next
    case 3
    with assms show ?thesis by (simp add: instr_line_parse flags_ok_def)
  qed
qed

lemma lines_keep_ok:
  assumes "list_all (\<lambda>l. blank_line l \<or> name_line l \<or> instr_line l) ls"
    and "encrypted_lines s = []" "flags_ok E (current_code s)" "list_all (code_ok E) (codes s)"
  shows "encrypted_lines (fold (parse_line ext E True) ls s) = [] \<and>
         flags_ok E (current_code (fold (parse_line ext E True) ls s)) \<and>
         list_all (code_ok E) (codes (fold (parse_line ext E True) ls s))"
  using assms
proof (induction ls arbitrary: s)
  case Nil
  then show ?case by simp
next
  case (Cons l ls)
  from Cons.prems have l: "blank_line l \<or> name_line l \<or> instr_line l"
    and ls: "list_all (\<lambda>l. blank_line l \<or> name_line l \<or> instr_line l) ls" by simp_all
  from line_keeps_ok [OF Cons.prems(2,3,4) l, of ext]
  show ?case using Cons.IH [OF ls, of "parse_line ext E True l s"] by simp
qed

lemma listing_keeps_ok:
  assumes "wf_listing ls" "encrypted_lines s = []" "ops (current_code s) = []"
    "list_all (code_ok E) (codes s)"
  shows "encrypted_lines (fold (parse_line ext E True) ls s) = [] \<and>
         list_all (code_ok E) (flush (fold (parse_line ext E True) ls s))"
  using assms
proof (induction ls arbitrary: s)
  case Nil
  then show ?case by (simp add: flush_def)
next
  case (Cons l ls)
  show ?case
  proof (cases "blank_line l")
    case True
    then have "parse_line ext E True l s = s" by (simp add: blank_line_def parse_line_def)
    with Cons True show ?thesis by simp
  next
    case False
    with Cons.prems have n: "name_line l"
      and ls: "list_all (\<lambda>l. blank_line l \<or> name_line l \<or> instr_line l) ls" by simp_all
    let ?s1 = "parse_line ext E True l s"
    from Cons.prems n have e1: "encrypted_lines ?s1 = []" and f1: "flags_ok E (current_code ?s1)"
      and c1: "list_all (code_ok E) (codes ?s1)"
      by (simp_all add: name_line_parse flush_def flags_ok_def)
    from lines_keep_ok [OF ls e1 f1 c1, of ext]
    show ?thesis by (auto simp: flush_def code_ok_def list_all_iff)
  qed
qed

lemma parse_ini_flush:
  assumes "encrypted_lines (fold (parse_line ext E loc) ls
             \<lparr>codes = pre, current_code = default_ARCode ext, encrypted_lines = [],
              alerts = al\<rparr>) = []"
  shows "fst (parse_ini ext E loc ls (pre, al)) =
           flush (fold (parse_line ext E loc) ls
             \<lparr>codes = pre, current_code = default_ARCode ext, encrypted_lines = [],
              alerts = al\<rparr>)"
  using assms by (simp add: parse_ini_def finish_ini_def flush_def Let_def)

lemma first_parse_ok:
  assumes "wf_listing ls"
  shows "list_all (code_ok E) (fst (parse_ini ext E True ls ([], al)))"
proof -
  let ?s0 = "\<lparr>codes = [], current_code = default_ARCode ext, encrypted_lines = [],
              alerts = al\<rparr>"
  have "encrypted_lines ?s0 = []" "ops (current_code ?s0) = []"
    "list_all (code_ok E) (codes ?s0)" by (simp_all add: default_ARCode_def)
  from listing_keeps_ok [OF assms this]
  show ?thesis by (simp add: parse_ini_flush)
qed

lemma parse_formatted_ops:
  "fold (parse_line ext E loc) (map (\<lambda>op. StringFromFormat_op (cmd_addr op) (val op)) os) s =
     s\<lparr>current_code := (current_code s)\<lparr>ops := ops (current_code s) @ os\<rparr>\<rparr>"
proof (induction os arbitrary: s)
  case Nil
  show ?case by simp
next
  case (Cons e os)
  show ?case by (simp add: parse_formatted_line Cons.IH)
qed

lemma parse_code_lines:
  assumes "encrypted_lines s = []"
  shows "fold (parse_line ext E loc) (code_lines c) s =
     s\<lparr>codes := flush s,
       current_code := (current_code s)\<lparr>ops := ops c, name := name c,
          active := name c \<in> set E, user_defined := loc\<rparr>\<rparr>"
proof -
  have n: "name_line (CHR ''$'' # name c)" by (simp add: name_line_def)
  show ?thesis
    by (simp add: code_lines_def name_line_parse [OF n assms] parse_formatted_ops)
qed

lemma parse_saved_lines:
  assumes "list_all (\<lambda>c. ops c \<noteq> [] \<and> user_defined c) cs" "encrypted_lines s = []"
  shows "encrypted_lines (fold (parse_line ext E True)
            (concat (map (\<lambda>code. if user_defined code then code_lines code else []) cs)) s) = [] \<and>
         flush (fold (parse_line ext E True)
            (concat (map (\<lambda>code. if user_defined code then code_lines code else []) cs)) s) =
           flush s @ map (\<lambda>c. c\<lparr>active := name c \<in> set E\<rparr>) cs"
  using assms
proof (induction cs arbitrary: s)
  case Nil
  show ?case using Nil.prems by simp
next
  case (Cons c cs)
  from Cons.prems have c: "ops c \<noteq> []" "user_defined c"
    and cs: "list_all (\<lambda>c. ops c \<noteq> [] \<and> user_defined c) cs" by simp_all
  let ?s1 = "fold (parse_line ext E True) (code_lines c) s"
  have s1: "?s1 = s\<lparr>codes := flush s,
       current_code := (current_code s)\<lparr>ops := ops c, name := name c,
          active := name c \<in> set E, user_defined := True\<rparr>\<rparr>"
    by (rule parse_code_lines [OF Cons.prems(2)])
  have e1: "encrypted_lines ?s1 = []" using Cons.prems(2) by (simp add: s1)
  have "(current_code s)\<lparr>ops := ops c, name := name c,
          active := name c \<in> set E, user_defined := True\<rparr> = c\<lparr>active := name c \<in> set E\<rparr>"
    using c(2) by (cases c, cases "current_code s") simp
  then have f1: "flush ?s1 = flush s @ [c\<lparr>active := name c \<in> set E\<rparr>]"
    using c(1) by (simp add: s1 flush_def)
  from Cons.IH [OF cs e1] f1 c(2) show ?case by simp
qed

lemma enabled_names_saved:
  "enabled_names_of (map (\<lambda>code. CHR ''$'' # name code) (filter active cs)) =
     map name (filter active cs)"
  by (simp add: enabled_names_of_def filter_map o_def)

lemma SaveCodes_lines:
  "GetLines (SaveCodes ini cs) ''ActionReplay'' =
     concat (map (\<lambda>code. if user_defined code then code_lines code else []) cs)"
  "GetLines (SaveCodes ini cs) ''ActionReplay_Enabled'' =
     map (\<lambda>code. CHR ''$'' # name code) (filter active cs)"
  by (simp_all add: SaveCodes_def GetLines_def SetLines_def)

lemma parse_ini_nothing: "parse_ini ext E loc [] ([], []) = ([], [])"
  by (simp add: parse_ini_def finish_ini_def default_ARCode_def)


text \<open>
  Claim C6. When the global file has no code lines and the \<open>ActionReplay\<close> section of the
  local file is a listing of plain codes (blank lines, name lines and instruction lines,
  the first line that is not blank being a name line), then parsing, saving what was
  parsed into any local file, whatever that file held before, and parsing the file saved
  yields the list of codes of the first parse: the same codes in the same order, each
  with its name, its ops and its flags.
\<close>

theorem parse_save_parse:
  assumes "GetLines global_ini ''ActionReplay'' = []"
    and "wf_listing (GetLines local_ini ''ActionReplay'')"
  shows "fst (LoadCodes ext global_ini
                (SaveCodes target_ini (fst (LoadCodes ext global_ini local_ini)))) =
         fst (LoadCodes ext global_ini local_ini)"
proof -
  define E where "E = enabled_names_of (GetLines local_ini ''ActionReplay_Enabled'')"
  define cs where "cs = fst (parse_ini ext E True (GetLines local_ini ''ActionReplay'') ([], []))"
  define E2 where "E2 = map name (filter active cs)"
  have first: "fst (LoadCodes ext global_ini local_ini) = cs"
    by (simp add: LoadCodes_def assms(1) parse_ini_nothing cs_def E_def)
  have ok: "list_all (code_ok E) cs"
    unfolding cs_def by (rule first_parse_ok [OF assms(2)])
  then have q: "list_all (\<lambda>c. ops c \<noteq> [] \<and> user_defined c) cs"
    by (simp add: list_all_iff code_ok_def flags_ok_def)
  let ?s0 = "\<lparr>codes = [], current_code = default_ARCode ext, encrypted_lines = [],
              alerts = []\<rparr>"
  have e0: "encrypted_lines ?s0 = []" by simp
  let ?lines = "concat (map (\<lambda>code. if user_defined code then code_lines code else []) cs)"
  from parse_saved_lines [OF q e0, of ext E2]
  have e: "encrypted_lines (fold (parse_line ext E2 True) ?lines ?s0) = []"
    and f: "flush (fold (parse_line ext E2 True) ?lines ?s0) =
              map (\<lambda>c. c\<lparr>active := name c \<in> set E2\<rparr>) cs"
    by (simp_all add: flush_def default_ARCode_def)
  have second: "fst (LoadCodes ext global_ini (SaveCodes target_ini cs)) =
      map (\<lambda>c. c\<lparr>active := name c \<in> set E2\<rparr>) cs"
    using assms(1)
    by (simp add: LoadCodes_def Let_def parse_ini_nothing SaveCodes_lines enabled_names_saved
        E2_def [symmetric] parse_ini_flush [OF e] f)
  have "map (\<lambda>c. c\<lparr>active := name c \<in> set E2\<rparr>) cs = cs"
  proof (rule map_idI)
    fix c assume c: "c \<in> set cs"
    with ok have a: "active c = (name c \<in> set E)" by (simp add: list_all_iff code_ok_def flags_ok_def)
    have "(name c \<in> set E2) = active c"
    proof
      assume "name c \<in> set E2"
      then obtain d where d: "d \<in> set cs" "active d" "name d = name c" by (auto simp: E2_def)
      with ok have "name d \<in> set E" by (simp add: list_all_iff code_ok_def flags_ok_def)
      with d a show "active c" by simp
    next
      assume "active c"
      with c show "name c \<in> set E2" by (auto simp: E2_def)
    qed
    then show "c\<lparr>active := name c \<in> set E2\<rparr> = c" by simp
  qed
  with first second show ?thesis by simp
qed

theorem parse_save_parse_witness:
  "GetLines empty_ini ''ActionReplay'' = [] \<and> wf_listing (GetLines S5_ini ''ActionReplay'') \<and>
   fst (LoadCodes no_externals empty_ini S5_ini) = S5_codes \<and>
   fst (LoadCodes no_externals empty_ini stale_ini) \<noteq> S5_codes \<and>
   fst (LoadCodes no_externals empty_ini (SaveCodes stale_ini S5_codes)) = S5_codes"
proof -
  have h1: "GetLines empty_ini ''ActionReplay'' = []" by (simp add: GetLines_def empty_ini_def)
  have h2: "wf_listing (GetLines S5_ini ''ActionReplay'')" by code_simp
  have f: "fst (LoadCodes no_externals empty_ini S5_ini) = S5_codes" by code_simp
  have g: "fst (LoadCodes no_externals empty_ini stale_ini) \<noteq> S5_codes" by code_simp
  from parse_save_parse [OF h1 h2, of no_externals stale_ini] f g h1 h2 show ?thesis by simp
qed

section \<open>Lines that the parser does not recognise\<close>

lemma malformed_line_core:
  assumes "\<not> blank_line l" "\<not> name_line l" "\<not> plain_ok l" "\<not> encrypted_shape l"
  shows "core (parse_line ext E loc l s) = core s"
    and "alerts (parse_line ext E loc l s) =
           (if plain_shape l then alerts s @ InvalidLine l #
              (if TryParse (''0x'' @ SplitString l CHR '' '' ! 0) = None then [InvalidAddress] else []) @
              (if TryParse (''0x'' @ SplitString l CHR '' '' ! 1) = None then [InvalidValue] else [])
            else alerts s)"
  using assms
  by (auto simp: core_def parse_line_def blank_line_def name_line_def plain_ok_def plain_shape_def
      encrypted_shape_def Let_def)

lemma parse_line_core:
  "core s = core s' \<Longrightarrow> core (parse_line ext E loc l s) = core (parse_line ext E loc l s')"
  by (auto simp: core_def parse_line_def commit_plain_def commit_encrypted_def Let_def)

lemma fold_parse_core:
  "core s = core s' \<Longrightarrow>
   core (fold (parse_line ext E loc) ls s) = core (fold (parse_line ext E loc) ls s')"
proof (induction ls arbitrary: s s')
  case Nil
  then show ?case by simp
next
  case (Cons l ls)
  from parse_line_core [OF Cons.prems] have "core (parse_line ext E loc l s) =
     core (parse_line ext E loc l s')" .
  from Cons.IH [OF this] show ?case by simp
qed

lemma finish_core: "core s = core s' \<Longrightarrow> codes (finish_ini ext s) = codes (finish_ini ext s')"
  by (auto simp: core_def finish_ini_def Let_def)

text \<open>
  Claim C7, as stated, fails: the line \<open>hello\<close> is not blank, not a name line, not a plain
  instruction line and not an encrypted line, and \<open>LoadCodes\<close> shows no alert for it. The
  code named before it is parsed as if the line were not there.
\<close>

theorem unrecognised_line_counterexample:
  "blank_line ''hello'' = False \<and> name_line ''hello'' = False \<and> plain_ok ''hello'' = False \<and>
   encrypted_shape ''hello'' = False \<and>
   LoadCodes no_externals empty_ini hello_ini =
     ([\<lparr>name = ''A'', active = False, user_defined = True,
        ops = [\<lparr>cmd_addr = 0x00100000, val = 0x00000001\<rparr>]\<rparr>], [])"
  by code_simp


text \<open>
  Claim C7, amended. A line that is neither blank, nor a name line, nor accepted as a
  plain instruction line, nor of the shape of an encrypted line (three pieces of four,
  four and five characters between dashes) is skipped: the codes, the current code and
  the buffered encrypted lines stay as they were, and the codes of the whole parse are
  those of the listing without the line. The parser shows an alert for the line when it
  consists of two pieces of eight characters between spaces (one of which is then not a
  hexadecimal number), and shows nothing for any other such line.
\<close>

theorem malformed_line_skipped:
  assumes "\<not> blank_line l" "\<not> name_line l" "\<not> plain_ok l" "\<not> encrypted_shape l"
  shows "codes (parse_line ext E loc l s) = codes s \<and>
         current_code (parse_line ext E loc l s) = current_code s \<and>
         encrypted_lines (parse_line ext E loc l s) = encrypted_lines s \<and>
         (if plain_shape l
          then \<exists>more. alerts (parse_line ext E loc l s) = alerts s @ InvalidLine l # more
          else alerts (parse_line ext E loc l s) = alerts s) \<and>
         fst (parse_ini ext E loc (before @ l # rest) acc) =
           fst (parse_ini ext E loc (before @ rest) acc)"
proof -
  note c = malformed_line_core [OF assms]
  have a: "core (parse_line ext E loc l s) = core s" for s by (rule c(1))
  let ?s0 = "\<lparr>codes = fst acc, current_code = default_ARCode ext, encrypted_lines = [],
              alerts = snd acc\<rparr>"
  let ?sb = "fold (parse_line ext E loc) before ?s0"
  have "core (fold (parse_line ext E loc) rest (parse_line ext E loc l ?sb)) =
        core (fold (parse_line ext E loc) rest ?sb)"
    by (rule fold_parse_core) (rule a)
  then have "core (fold (parse_line ext E loc) (before @ l # rest) ?s0) =
        core (fold (parse_line ext E loc) (before @ rest) ?s0)"
    by simp
  then have "codes (finish_ini ext (fold (parse_line ext E loc) (before @ l # rest) ?s0)) =
        codes (finish_ini ext (fold (parse_line ext E loc) (before @ rest) ?s0))"
    by (rule finish_core)
  then have "fst (parse_ini ext E loc (before @ l # rest) acc) =
           fst (parse_ini ext E loc (before @ rest) acc)"
    by (simp add: parse_ini_def Let_def)
  moreover from a [of s] have "codes (parse_line ext E loc l s) = codes s"
    "current_code (parse_line ext E loc l s) = current_code s"
    "encrypted_lines (parse_line ext E loc l s) = encrypted_lines s"
    by (simp_all add: core_def)
  ultimately show ?thesis using c(2) [of ext E loc s] by simp
qed

theorem malformed_line_skipped_witness:
  "\<not> blank_line badhex_line \<and> \<not> name_line badhex_line \<and> \<not> plain_ok badhex_line \<and>
   \<not> encrypted_shape badhex_line \<and> plain_shape badhex_line \<and>
   codes (parse_line no_externals [] True badhex_line start_state) = codes start_state \<and>
   alerts (parse_line no_externals [] True badhex_line start_state) =
     [InvalidLine badhex_line, InvalidAddress] \<and>
   fst (parse_ini no_externals [] True ([''$A'', ''00100000 00000001''] @ badhex_line # []) ([], [])) =
     fst (parse_ini no_externals [] True ([''$A'', ''00100000 00000001''] @ []) ([], []))"
proof -
  have h1: "\<not> blank_line badhex_line" by code_simp
  have h2: "\<not> name_line badhex_line" by code_simp
  have h3: "\<not> plain_ok badhex_line" by code_simp
  have h4: "\<not> encrypted_shape badhex_line" by code_simp
  have p: "plain_shape badhex_line" by code_simp
  have a: "alerts (parse_line no_externals [] True badhex_line start_state) =
     [InvalidLine badhex_line, InvalidAddress]" by code_simp
  from malformed_line_skipped [OF h1 h2 h3 h4, of no_externals "[]" True start_state
      "[''$A'', ''00100000 00000001'']" "[]" "([], [])"] h1 h2 h3 h4 p a
  show ?thesis by blast
qed


end
